theory Spec2Isabelle
  imports Complex_Main "HOL-Library.Multiset"
begin

section \<open>Instants and the local day window\<close>

text \<open>
  A JavaScript \<open>Date\<close> is a number of milliseconds since the epoch. The local calendar is
  the one of the process (the server for the day windows, the browser for the chart
  labels). A time zone is what the runtime knows of it: the offset in force at an instant,
  and the offset by which a local time value is read back to an instant (for a local time
  that a clock change repeats or skips, the offset before the change).
  \<open>d.setHours(h, m, s, ms)\<close> keeps the local day of \<open>d\<close>, replaces the time of day and reads
  the local value back.
\<close>

type_synonym instant = int

definition msPerDay :: int where
  "msPerDay = 86400000"

record zone =
  offsetAt :: "instant \<Rightarrow> int"
  offsetOfLocal :: "int \<Rightarrow> int"

definition fixedZone :: "int \<Rightarrow> zone" where
  "fixedZone off = \<lparr>offsetAt = (\<lambda>t. off), offsetOfLocal = (\<lambda>v. off)\<rparr>"

definition localTime :: "zone \<Rightarrow> instant \<Rightarrow> int" where
  "localTime tz t = t + offsetAt tz t"

definition localDay :: "zone \<Rightarrow> instant \<Rightarrow> int" where
  "localDay tz t = localTime tz t div msPerDay"

definition setHours :: "zone \<Rightarrow> instant \<Rightarrow> int \<Rightarrow> instant" where
  "setHours tz t msOfDay =
     (let l = localTime tz t; v = l - l mod msPerDay + msOfDay in v - offsetOfLocal tz v)"

definition startOfDay :: "zone \<Rightarrow> instant \<Rightarrow> instant" where
  "startOfDay tz t = setHours tz t 0"

definition endOfDay :: "zone \<Rightarrow> instant \<Rightarrow> instant" where
  "endOfDay tz t = setHours tz t (23 * 3600000 + 59 * 60000 + 59 * 1000 + 999)"

text \<open>The predicate \<open>and(gte(col, startOfDay), lte(col, endOfDay))\<close> of the day lookups.\<close>

definition inDayWindow :: "zone \<Rightarrow> instant \<Rightarrow> instant \<Rightarrow> bool" where
  "inDayWindow tz date d = (startOfDay tz date \<le> d \<and> d \<le> endOfDay tz date)"

section \<open>Tables (drizzle/schema.ts)\<close>

text \<open>
  One record per table row; the store keeps a value as it is given (the rounding of a
  \<open>timestamp\<close> or \<open>int\<close> column to its precision is the storage's own and is not
  modelled). The columns \<open>createdAt\<close> and \<open>updatedAt\<close> are kept only where
  a query reads them (\<open>habits.createdAt\<close> orders the habit listing). A nullable column is
  an \<open>option\<close>. The \<open>mood\<close> column of \<open>mood_history\<close> is an option as well: the aggregation
  reads it through \<open>m.mood || "unknown"\<close>, and \<open>None\<close> stands for a row whose category is
  missing (null or the empty string).
\<close>

datatype mood = Excellent | Good | Neutral | Sad | Terrible

datatype period = Week | Month | Year

record diary_row =
  de_id :: nat
  de_userId :: nat
  de_title :: "string option"
  de_content :: "string option"
  de_mood :: "mood option"
  de_moodIntensity :: "rat option"
  de_date :: instant

record habit_row =
  hb_id :: nat
  hb_userId :: nat
  hb_name :: string
  hb_description :: "string option"
  hb_color :: "string option"
  hb_icon :: "string option"
  hb_createdAt :: instant
  hb_isActive :: nat

record completion_row =
  hc_id :: nat
  hc_habitId :: nat
  hc_userId :: nat
  hc_date :: instant
  hc_completed :: nat
  hc_notes :: "string option"
  hc_completedAt :: "instant option"

record mood_row =
  mh_id :: nat
  mh_userId :: nat
  mh_date :: instant
  mh_mood :: "mood option"
  mh_moodIntensity :: rat
  mh_notes :: "string option"

record insight_row =
  mi_id :: nat
  mi_userId :: nat
  mi_period :: period
  mi_periodStart :: instant
  mi_periodEnd :: instant
  mi_averageMoodScore :: string
  mi_dominantMood :: string
  mi_moodDistribution :: "(string \<times> nat) list"
  mi_topHabitsCorrelation :: "(nat \<times> string) list"
  mi_insights :: string

record store =
  diaryEntries :: "diary_row list"
  habits :: "habit_row list"
  habitCompletions :: "completion_row list"
  moodHistory :: "mood_row list"
  moodInsights :: "insight_row list"

definition emptyStore :: store where
  "emptyStore = \<lparr>diaryEntries = [], habits = [], habitCompletions = [],
     moodHistory = [], moodInsights = []\<rparr>"

text \<open>
  \<open>getDb()\<close> returns the drizzle handle or \<open>null\<close>: the database an operation sees is a
  \<open>store option\<close>, \<open>None\<close> when the handle is null. A thrown exception is the \<open>Inl\<close> of
  the result, and every operation returns the database it leaves behind.
\<close>

datatype trpc_code = BAD_REQUEST | FORBIDDEN | INTERNAL_SERVER_ERROR

datatype error = PlainError string | TRPCError trpc_code "string option" | InvalidInput

type_synonym 'a outcome = "(error + 'a) \<times> store option"

definition dbNotAvailable :: error where
  "dbNotAvailable = PlainError ''Database not available''"

text \<open>The \<open>autoincrement\<close> primary key: one more than the largest id of the table.\<close>

definition autoId :: "nat list \<Rightarrow> nat" where
  "autoId ids = Suc (fold max ids 0)"

text \<open>
  \<open>db.update(t).set(obj)\<close> of drizzle-orm writes the columns whose value in \<open>obj\<close> is not
  \<open>undefined\<close> and leaves the others as they are; \<open>null\<close> is a value and is written. The
  routes rely on it: \<open>habits.update\<close> passes its optional inputs straight into \<open>set\<close>, and
  the mood page sends \<open>notes: notes || undefined\<close>. \<open>None\<close> is \<open>undefined\<close> here.
\<close>

definition setCol :: "'a option \<Rightarrow> 'a \<Rightarrow> 'a" where
  "setCol v old = (case v of None \<Rightarrow> old | Some x \<Rightarrow> x)"

section \<open>Day-bucket upserts (server/db.ts)\<close>

definition moodOfDay :: "zone \<Rightarrow> nat \<Rightarrow> instant \<Rightarrow> mood_row \<Rightarrow> bool" where
  "moodOfDay tz userId date r = (mh_userId r = userId \<and> inDayWindow tz date (mh_date r))"

definition getMoodHistoryByDate :: "zone \<Rightarrow> store option \<Rightarrow> nat \<Rightarrow> instant \<Rightarrow> mood_row option" where
  "getMoodHistoryByDate tz db userId date =
     (case db of
        None \<Rightarrow> None
      | Some s \<Rightarrow>
          (case take 1 (filter (moodOfDay tz userId date) (moodHistory s)) of
             [] \<Rightarrow> None
           | r # _ \<Rightarrow> Some r))"

definition upsertMoodHistory ::
  "zone \<Rightarrow> store option \<Rightarrow> nat \<Rightarrow> instant \<Rightarrow> mood \<Rightarrow> rat \<Rightarrow> string option \<Rightarrow> unit outcome" where
  "upsertMoodHistory tz db userId date mood moodIntensity notes =
     (case db of
        None \<Rightarrow> (Inl dbNotAvailable, db)
      | Some s \<Rightarrow>
          (case take 1 (filter (moodOfDay tz userId date) (moodHistory s)) of
             e # _ \<Rightarrow>
               (Inr (), Some (s\<lparr>moodHistory :=
                  map (\<lambda>r. if mh_id r = mh_id e
                            then r\<lparr>mh_mood := Some mood,
                                   mh_moodIntensity := moodIntensity,
                                   mh_notes := setCol (map_option Some notes) (mh_notes r)\<rparr>
                            else r) (moodHistory s)\<rparr>))
           | [] \<Rightarrow>
               (Inr (), Some (s\<lparr>moodHistory := moodHistory s @
                  [\<lparr>mh_id = autoId (map mh_id (moodHistory s)), mh_userId = userId,
                    mh_date = date, mh_mood = Some mood,
                    mh_moodIntensity = moodIntensity, mh_notes = notes\<rparr>]\<rparr>))))"

definition completionOfDay :: "zone \<Rightarrow> nat \<Rightarrow> nat \<Rightarrow> instant \<Rightarrow> completion_row \<Rightarrow> bool" where
  "completionOfDay tz habitId userId date r =
     (hc_habitId r = habitId \<and> hc_userId r = userId \<and> inDayWindow tz date (hc_date r))"

text \<open>\<open>now\<close> is the value of \<open>new Date()\<close> at the call.\<close>

definition upsertHabitCompletion ::
  "zone \<Rightarrow> instant \<Rightarrow> store option \<Rightarrow> nat \<Rightarrow> nat \<Rightarrow> instant \<Rightarrow> bool \<Rightarrow> unit outcome" where
  "upsertHabitCompletion tz now db habitId userId date completed =
     (case db of
        None \<Rightarrow> (Inl dbNotAvailable, db)
      | Some s \<Rightarrow>
          (case take 1 (filter (completionOfDay tz habitId userId date) (habitCompletions s)) of
             e # _ \<Rightarrow>
               (Inr (), Some (s\<lparr>habitCompletions :=
                  map (\<lambda>r. if hc_id r = hc_id e
                            then r\<lparr>hc_completed := (if completed then 1 else 0),
                                   hc_completedAt := (if completed then Some now else None)\<rparr>
                            else r) (habitCompletions s)\<rparr>))
           | [] \<Rightarrow>
               (Inr (), Some (s\<lparr>habitCompletions := habitCompletions s @
                  [\<lparr>hc_id = autoId (map hc_id (habitCompletions s)), hc_habitId = habitId,
                    hc_userId = userId, hc_date = date,
                    hc_completed = (if completed then 1 else 0), hc_notes = None,
                    hc_completedAt = (if completed then Some now else None)\<rparr>]\<rparr>))))"

text \<open>
  Every day window of the file uses the same two lines, so the diary lookup and the
  completion listing of a day are the same predicate on their tables.
\<close>

definition getDiaryEntryByDate :: "zone \<Rightarrow> store option \<Rightarrow> nat \<Rightarrow> instant \<Rightarrow> diary_row option" where
  "getDiaryEntryByDate tz db userId date =
     (case db of
        None \<Rightarrow> None
      | Some s \<Rightarrow>
          (case take 1 (filter (\<lambda>r. de_userId r = userId \<and> inDayWindow tz date (de_date r))
                          (diaryEntries s)) of
             [] \<Rightarrow> None
           | r # _ \<Rightarrow> Some r))"

definition getHabitCompletionsByDate ::
  "zone \<Rightarrow> store option \<Rightarrow> nat \<Rightarrow> instant \<Rightarrow> completion_row list" where
  "getHabitCompletionsByDate tz db userId date =
     (case db of
        None \<Rightarrow> []
      | Some s \<Rightarrow>
          filter (\<lambda>r. hc_userId r = userId \<and> inDayWindow tz date (hc_date r)) (habitCompletions s))"

section \<open>Range and listing queries (server/db.ts)\<close>

text \<open>
  \<open>orderBy(desc(moodHistory.date))\<close> and \<open>orderBy(habits.createdAt)\<close>. SQL leaves the order
  of rows with equal keys open; the model keeps them in table order (a stable sort).
\<close>

definition getMoodHistoryByDateRange ::
  "store option \<Rightarrow> nat \<Rightarrow> instant \<Rightarrow> instant \<Rightarrow> mood_row list" where
  "getMoodHistoryByDateRange db userId startDate endDate =
     (case db of
        None \<Rightarrow> []
      | Some s \<Rightarrow>
          sort_key (\<lambda>r. - mh_date r)
            (filter (\<lambda>r. mh_userId r = userId \<and> startDate \<le> mh_date r \<and> mh_date r \<le> endDate)
               (moodHistory s)))"

definition getHabitsByUser :: "store option \<Rightarrow> nat \<Rightarrow> habit_row list" where
  "getHabitsByUser db userId =
     (case db of
        None \<Rightarrow> []
      | Some s \<Rightarrow>
          sort_key hb_createdAt
            (filter (\<lambda>h. hb_userId h = userId \<and> hb_isActive h = 1) (habits s)))"

section \<open>Habit and diary mutations (server/db.ts, server/routers.ts)\<close>

text \<open>
  The \<open>Partial\<close> update objects: \<open>None\<close> is a key whose value is \<open>undefined\<close>. The query
  builder refuses a \<open>set\<close> in which every value is undefined (\<open>No values to set\<close>).
\<close>

record habit_updates =
  hu_name :: "string option"
  hu_description :: "string option"
  hu_color :: "string option"
  hu_icon :: "string option"
  hu_isActive :: "nat option"

definition noHabitValues :: "habit_updates \<Rightarrow> bool" where
  "noHabitValues up =
     (hu_name up = None \<and> hu_description up = None \<and> hu_color up = None
      \<and> hu_icon up = None \<and> hu_isActive up = None)"

definition updateHabit :: "store option \<Rightarrow> nat \<Rightarrow> habit_updates \<Rightarrow> unit outcome" where
  "updateHabit db i up =
     (case db of
        None \<Rightarrow> (Inl dbNotAvailable, db)
      | Some s \<Rightarrow>
          if noHabitValues up then (Inl (PlainError ''No values to set''), db)
          else (Inr (), Some (s\<lparr>habits :=
                  map (\<lambda>h. if hb_id h = i
                            then h\<lparr>hb_name := setCol (hu_name up) (hb_name h),
                                   hb_description := setCol (map_option Some (hu_description up)) (hb_description h),
                                   hb_color := setCol (map_option Some (hu_color up)) (hb_color h),
                                   hb_icon := setCol (map_option Some (hu_icon up)) (hb_icon h),
                                   hb_isActive := setCol (hu_isActive up) (hb_isActive h)\<rparr>
                            else h) (habits s)\<rparr>)))"

text \<open>
  The routes \<open>habits.update\<close> and \<open>habits.archive\<close>: \<open>userId\<close> is \<open>ctx.user.id\<close>, which
  neither resolver reads.
\<close>

definition habits_update_route ::
  "store option \<Rightarrow> nat \<Rightarrow> nat \<Rightarrow> string option \<Rightarrow> string option \<Rightarrow> string option \<Rightarrow>
     string option \<Rightarrow> unit outcome" where
  "habits_update_route db userId i name description color icon =
     updateHabit db i \<lparr>hu_name = name, hu_description = description, hu_color = color,
       hu_icon = icon, hu_isActive = None\<rparr>"

definition habits_archive_route :: "store option \<Rightarrow> nat \<Rightarrow> nat \<Rightarrow> unit outcome" where
  "habits_archive_route db userId i =
     updateHabit db i \<lparr>hu_name = None, hu_description = None, hu_color = None,
       hu_icon = None, hu_isActive = Some 0\<rparr>"

definition updateDiaryEntry ::
  "store option \<Rightarrow> nat \<Rightarrow> string option \<Rightarrow> string option \<Rightarrow> unit outcome" where
  "updateDiaryEntry db i title content =
     (case db of
        None \<Rightarrow> (Inl dbNotAvailable, db)
      | Some s \<Rightarrow>
          if title = None \<and> content = None then (Inl (PlainError ''No values to set''), db)
          else (Inr (), Some (s\<lparr>diaryEntries :=
                  map (\<lambda>r. if de_id r = i
                            then r\<lparr>de_title := setCol (map_option Some title) (de_title r),
                                   de_content := setCol (map_option Some content) (de_content r)\<rparr>
                            else r) (diaryEntries s)\<rparr>)))"

text \<open>The route \<open>diary.update\<close>; \<open>now\<close> is the \<open>new Date()\<close> of the lookup.\<close>

definition diary_update_route ::
  "zone \<Rightarrow> instant \<Rightarrow> store option \<Rightarrow> nat \<Rightarrow> nat \<Rightarrow> string option \<Rightarrow> string option \<Rightarrow>
     unit outcome" where
  "diary_update_route tz now db userId i title content =
     (case getDiaryEntryByDate tz db userId now of
        None \<Rightarrow> (Inl (TRPCError FORBIDDEN None), db)
      | Some entry \<Rightarrow>
          if de_id entry \<noteq> i then (Inl (TRPCError FORBIDDEN None), db)
          else updateDiaryEntry db i title content)"

section \<open>The route mood.record (server/routers.ts)\<close>

text \<open>
  The input as it arrives, before the zod schema
  \<open>{date, mood: z.enum([...]), moodIntensity: z.number().min(1).max(10), notes}\<close> has
  looked at it: the category is any string and the intensity any finite number. An input
  the schema refuses never reaches the resolver; the caller receives \<open>InvalidInput\<close>
  (the \<open>BAD_REQUEST\<close> that carries the schema's issues).
\<close>

record mood_input =
  in_date :: instant
  in_mood :: string
  in_moodIntensity :: rat
  in_notes :: "string option"

definition moodName :: "mood \<Rightarrow> string" where
  "moodName c = (case c of Excellent \<Rightarrow> ''excellent'' | Good \<Rightarrow> ''good''
     | Neutral \<Rightarrow> ''neutral'' | Sad \<Rightarrow> ''sad'' | Terrible \<Rightarrow> ''terrible'')"

definition moodOfName :: "string \<Rightarrow> mood option" where
  "moodOfName n =
     (if n = ''excellent'' then Some Excellent
      else if n = ''good'' then Some Good
      else if n = ''neutral'' then Some Neutral
      else if n = ''sad'' then Some Sad
      else if n = ''terrible'' then Some Terrible
      else None)"

definition moodRecordSchema :: "mood_input \<Rightarrow> (mood \<times> rat) option" where
  "moodRecordSchema inp =
     (case moodOfName (in_mood inp) of
        None \<Rightarrow> None
      | Some c \<Rightarrow>
          if 1 \<le> in_moodIntensity inp \<and> in_moodIntensity inp \<le> 10
          then Some (c, in_moodIntensity inp) else None)"

definition mood_record_route :: "zone \<Rightarrow> store option \<Rightarrow> nat \<Rightarrow> mood_input \<Rightarrow> unit outcome" where
  "mood_record_route tz db userId inp =
     (case moodRecordSchema inp of
        None \<Rightarrow> (Inl InvalidInput, db)
      | Some (c, x) \<Rightarrow> upsertMoodHistory tz db userId (in_date inp) c x (in_notes inp))"

section \<open>Numbers and their texts\<close>

text \<open>
  A JavaScript number is an IEEE 754 double. The model carries the rational that the
  double denotes, and \<open>toDouble\<close> rounds a rational to the nearest double, ties to the
  even significand (53 bits, subnormals included; overflow to \<open>Infinity\<close> is outside the
  model). A sum, a quotient and \<open>parseFloat\<close> are the exact result rounded by \<open>toDouble\<close>.
\<close>

fun bitLength :: "nat \<Rightarrow> nat" where
  "bitLength n = (if n = 0 then 0 else Suc (bitLength (n div 2)))"

declare bitLength.simps [simp del]

definition pow2 :: "int \<Rightarrow> rat" where
  "pow2 k = (if 0 \<le> k then 2 ^ nat k else 1 / 2 ^ nat (- k))"

text \<open>The exponent \<open>e\<close> with \<open>2\<^sup>e \<le> x < 2\<^sup>e\<^sup>+\<^sup>1\<close>, for a positive \<open>x\<close>.\<close>

definition floorLog2 :: "rat \<Rightarrow> int" where
  "floorLog2 x =
     (case quotient_of x of (a, b) \<Rightarrow>
        let k = int (bitLength (nat a)) - int (bitLength (nat b))
        in if pow2 k \<le> x then k else k - 1)"

definition roundHalfEven :: "rat \<Rightarrow> int" where
  "roundHalfEven x =
     (let f = \<lfloor>x\<rfloor>; d = x - of_int f
      in if d < 1 / 2 then f else if 1 / 2 < d then f + 1 else if even f then f else f + 1)"

definition toDouble :: "rat \<Rightarrow> rat" where
  "toDouble x =
     (if x = 0 then 0
      else let e = max (floorLog2 \<bar>x\<bar> - 52) (- 1074);
               m = roundHalfEven (\<bar>x\<bar> / pow2 e)
           in sgn x * of_int m * pow2 e)"

text \<open>
  \<open>toFixed\<close> follows Number.prototype.toFixed for a finite number below \<open>10\<^sup>2\<^sup>1\<close>: the
  integer \<open>n\<close> nearest to \<open>x * 10\<^sup>f\<close>, the larger one of two equally near, printed with
  \<open>f\<close> decimals. \<open>parseFloat\<close> reads such a text back.
\<close>

definition digitChar :: "nat \<Rightarrow> char" where
  "digitChar d = ''0123456789'' ! d"

fun digits :: "nat \<Rightarrow> string" where
  "digits n = (if n < 10 then [digitChar n] else digits (n div 10) @ [digitChar (n mod 10)])"

declare digits.simps [simp del]

definition toFixed :: "nat \<Rightarrow> rat \<Rightarrow> string" where
  "toFixed f x =
     (let s = (if x < 0 then ''-'' else []);
          n = nat \<lfloor>\<bar>x\<bar> * 10 ^ f + 1 / 2\<rfloor>;
          m = digits n;
          z = replicate (Suc f - length m) (CHR ''0'') @ m;
          k = length z
      in if f = 0 then s @ m else s @ take (k - f) z @ ''.'' @ drop (k - f) z)"

definition digitVal :: "char \<Rightarrow> nat" where
  "digitVal c = of_char c - 48"

definition numeral10 :: "string \<Rightarrow> nat" where
  "numeral10 cs = foldl (\<lambda>a c. 10 * a + digitVal c) 0 cs"

definition parseFloat :: "string \<Rightarrow> rat" where
  "parseFloat str =
     (let neg = (take 1 str = ''-'');
          body = (if neg then drop 1 str else str);
          ip = takeWhile (\<lambda>c. c \<noteq> CHR ''.'') body;
          fp = drop (Suc (length ip)) body;
          v = toDouble (of_nat (numeral10 ip) + of_nat (numeral10 fp) / 10 ^ length fp)
      in if neg then - v else v)"

text \<open>\<open>x || 0\<close> on a number.\<close>

definition orZero :: "rat \<Rightarrow> rat" where
  "orZero x = (if x = 0 then 0 else x)"

section \<open>Period aggregation: insights.generateInsights (server/routers.ts)\<close>

text \<open>
  \<open>moodCounts\<close> is a JavaScript object used as a dictionary: its entries are listed in
  the order in which the keys were first written, so it is an association list.
  \<open>bump\<close> is \<open>moodCounts[k] = (moodCounts[k] || 0) + 1\<close>.
\<close>

fun bump :: "(string \<times> nat) list \<Rightarrow> string \<Rightarrow> (string \<times> nat) list" where
  "bump [] k = [(k, 1)]"
| "bump ((k', c) # kcs) k = (if k' = k then (k', c + 1) # kcs else (k', c) # bump kcs k)"

definition moodKey :: "mood_row \<Rightarrow> string" where
  "moodKey m = (case mh_mood m of None \<Rightarrow> ''unknown'' | Some c \<Rightarrow> moodName c)"

definition moodCounts :: "mood_row list \<Rightarrow> (string \<times> nat) list" where
  "moodCounts moods = foldl (\<lambda>acc m. bump acc (moodKey m)) [] moods"

definition totalIntensity :: "mood_row list \<Rightarrow> rat" where
  "totalIntensity moods = foldl (\<lambda>t m. toDouble (t + orZero (mh_moodIntensity m))) 0 moods"

text \<open>
  \<open>Object.entries(counts).sort(([, a], [, b]) => b - a)[0]?.[0] || "neutral"\<close>: a stable
  sort by descending count, then the key of the first entry.
\<close>

definition dominantOf :: "(string \<times> nat) list \<Rightarrow> string" where
  "dominantOf counts =
     (case sort_key (\<lambda>(k, c). - int c) counts of
        [] \<Rightarrow> ''neutral''
      | (k, c) # _ \<Rightarrow> if k = [] then ''neutral'' else k)"

definition periodName :: "period \<Rightarrow> string" where
  "periodName p = (case p of Week \<Rightarrow> ''week'' | Month \<Rightarrow> ''month'' | Year \<Rightarrow> ''year'')"

definition averageMoodScore :: "mood_row list \<Rightarrow> string" where
  "averageMoodScore moods =
     toFixed 2 (toDouble (totalIntensity moods / of_nat (length moods)))"

definition insightText :: "period \<Rightarrow> mood_row list \<Rightarrow> string" where
  "insightText p moods =
     ''During this '' @ periodName p @ '', your dominant mood was '' @ dominantOf (moodCounts moods)
       @ '' with an average intensity of '' @ averageMoodScore moods
       @ ''/10. You tracked '' @ digits (length moods) @ '' mood entries.''"

definition createMoodInsight :: "store option \<Rightarrow> insight_row \<Rightarrow> unit outcome" where
  "createMoodInsight db insight =
     (case db of
        None \<Rightarrow> (Inl dbNotAvailable, db)
      | Some s \<Rightarrow>
          (Inr (), Some (s\<lparr>moodInsights := moodInsights s @
             [insight\<lparr>mi_id := autoId (map mi_id (moodInsights s))\<rparr>]\<rparr>)))"

text \<open>
  The row handed to \<open>createMoodInsight\<close> has no id yet (\<open>mi_id = 0\<close> below, replaced by
  the insert). \<open>topHabitsCorrelation\<close> is kept as the list of pairs that the resolver
  serialises.
\<close>

definition buildInsight ::
  "nat \<Rightarrow> period \<Rightarrow> instant \<Rightarrow> instant \<Rightarrow> mood_row list \<Rightarrow> habit_row list \<Rightarrow> insight_row" where
  "buildInsight userId p periodStart periodEnd moods hs =
     \<lparr>mi_id = 0, mi_userId = userId, mi_period = p, mi_periodStart = periodStart,
      mi_periodEnd = periodEnd, mi_averageMoodScore = averageMoodScore moods,
      mi_dominantMood = dominantOf (moodCounts moods),
      mi_moodDistribution = moodCounts moods,
      mi_topHabitsCorrelation = map (\<lambda>h. (hb_id h, hb_name h)) (take 3 hs),
      mi_insights = insightText p moods\<rparr>"

definition noMoodData :: error where
  "noMoodData = TRPCError BAD_REQUEST (Some ''No mood data available for this period'')"

definition generateInsights ::
  "store option \<Rightarrow> nat \<Rightarrow> period \<Rightarrow> instant \<Rightarrow> instant \<Rightarrow> unit outcome" where
  "generateInsights db userId p periodStart periodEnd =
     (let moods = getMoodHistoryByDateRange db userId periodStart periodEnd;
          hs = getHabitsByUser db userId
      in if length moods = 0 then (Inl noMoodData, db)
         else createMoodInsight db (buildInsight userId p periodStart periodEnd moods hs))"

section \<open>The chart statistics of InsightsPage.tsx\<close>

text \<open>
  The Gregorian month and day of a day number (days since 1970-01-01), as
  \<open>toLocaleDateString("en-US", {month: "short", day: "numeric"})\<close> prints them for the
  local day of an instant: the label has no year.
\<close>

definition monthDay :: "int \<Rightarrow> nat \<times> nat" where
  "monthDay days =
     (let z = days + 719468;
          doe = z mod 146097;
          yoe = (doe - doe div 1460 + doe div 36524 - doe div 146096) div 365;
          doy = doe - (365 * yoe + yoe div 4 - yoe div 100);
          mp = (5 * doy + 2) div 153;
          d = doy - (153 * mp + 2) div 5 + 1;
          m = (if mp < 10 then mp + 3 else mp - 9)
      in (nat m, nat d))"

definition monthShort :: "nat \<Rightarrow> string" where
  "monthShort m =
     [''Jan'', ''Feb'', ''Mar'', ''Apr'', ''May'', ''Jun'',
      ''Jul'', ''Aug'', ''Sep'', ''Oct'', ''Nov'', ''Dec''] ! (m - 1)"

definition dayLabel :: "zone \<Rightarrow> instant \<Rightarrow> string" where
  "dayLabel tz t = (case monthDay (localDay tz t) of (m, d) \<Rightarrow> monthShort m @ '' '' @ digits d)"

definition initialCounts :: "(string \<times> nat) list" where
  "initialCounts = [(''excellent'', 0), (''good'', 0), (''neutral'', 0), (''sad'', 0), (''terrible'', 0)]"

definition pageMoodCounts :: "mood_row list \<Rightarrow> (string \<times> nat) list" where
  "pageMoodCounts moods =
     foldl (\<lambda>acc m. case mh_mood m of None \<Rightarrow> acc | Some c \<Rightarrow> bump acc (moodName c))
       initialCounts moods"

text \<open>\<open>dailyData[date] = (dailyData[date] || 0) + v\<close>, entries in order of first write.\<close>

fun addTo :: "(string \<times> rat) list \<Rightarrow> string \<Rightarrow> rat \<Rightarrow> (string \<times> rat) list" where
  "addTo [] k v = [(k, toDouble (0 + v))]"
| "addTo ((k', a) # kas) k v =
     (if k' = k then (k', toDouble (orZero a + v)) # kas else (k', a) # addTo kas k v)"

definition dailyData :: "zone \<Rightarrow> mood_row list \<Rightarrow> (string \<times> rat) list" where
  "dailyData tz moods =
     foldl (\<lambda>acc m. addTo acc (dayLabel tz (mh_date m)) (orZero (mh_moodIntensity m))) [] moods"

definition trendData :: "zone \<Rightarrow> mood_row list \<Rightarrow> (string \<times> rat) list" where
  "trendData tz moods =
     map (\<lambda>(date, intensity).
            (date,
             parseFloat (toFixed 1
               (toDouble (intensity /
                  of_nat (let n = length (filter (\<lambda>m. dayLabel tz (mh_date m) = date) moods)
                          in if n = 0 then 1 else n))))))
       (dailyData tz moods)"

section \<open>Observations used in the statements\<close>

text \<open>The stored records of one owning key on the local day of an instant.\<close>

definition moodRecordsOn :: "zone \<Rightarrow> store option \<Rightarrow> nat \<Rightarrow> instant \<Rightarrow> mood_row list" where
  "moodRecordsOn tz db userId date =
     (case db of None \<Rightarrow> []
      | Some s \<Rightarrow>
          filter (\<lambda>r. mh_userId r = userId \<and> localDay tz (mh_date r) = localDay tz date)
            (moodHistory s))"

definition completionRecordsOn ::
  "zone \<Rightarrow> store option \<Rightarrow> nat \<Rightarrow> nat \<Rightarrow> instant \<Rightarrow> completion_row list" where
  "completionRecordsOn tz db habitId userId date =
     (case db of None \<Rightarrow> []
      | Some s \<Rightarrow>
          filter (\<lambda>r. hc_habitId r = habitId \<and> hc_userId r = userId
                       \<and> localDay tz (hc_date r) = localDay tz date)
            (habitCompletions s))"

text \<open>
  A zone whose day windows are its local days: an instant lies in the window of a date
  exactly when it falls on the local day of that date. Every fixed offset is such a zone.
\<close>

definition unbrokenDays :: "zone \<Rightarrow> bool" where
  "unbrokenDays tz = (\<forall>t d. inDayWindow tz t d = (localDay tz d = localDay tz t))"

text \<open>The weaker half: a day window holds only instants of its own local day.\<close>

definition windowsInDays :: "zone \<Rightarrow> bool" where
  "windowsInDays tz = (\<forall>t d. inDayWindow tz t d \<longrightarrow> localDay tz d = localDay tz t)"

definition utc :: zone where
  "utc = fixedZone 0"

text \<open>
  A zone that sets its clocks back by one hour at local midnight, from two hours to three
  hours west of UTC, at the instant 93600000: the local hour from 23:00 to 24:00 of day 0
  runs twice, and the end of that day, read back with the offset before the change, lies
  in its first run.
\<close>

definition fallBackZone :: zone where
  "fallBackZone =
     \<lparr>offsetAt = (\<lambda>t. if t < 93600000 then - 7200000 else - 10800000),
      offsetOfLocal = (\<lambda>v. if v < 86400000 then - 7200000 else - 10800000)\<rparr>"

text \<open>The row that an upsert inserts when the day has none.\<close>

definition newCompletion :: "store \<Rightarrow> instant \<Rightarrow> nat \<Rightarrow> nat \<Rightarrow> instant \<Rightarrow> bool \<Rightarrow> completion_row" where
  "newCompletion s now h u t c =
     \<lparr>hc_id = autoId (map hc_id (habitCompletions s)), hc_habitId = h, hc_userId = u,
      hc_date = t, hc_completed = (if c then 1 else 0), hc_notes = None,
      hc_completedAt = (if c then Some now else None)\<rparr>"

text \<open>The database left by two successive upserts.\<close>

definition moodUpsertTwice ::
  "zone \<Rightarrow> store option \<Rightarrow> nat \<Rightarrow> instant \<Rightarrow> mood \<times> rat \<times> string option \<Rightarrow>
     instant \<Rightarrow> mood \<times> rat \<times> string option \<Rightarrow> store option" where
  "moodUpsertTwice tz db userId t1 p1 t2 p2 =
     (case (p1, p2) of ((m1, x1, n1), (m2, x2, n2)) \<Rightarrow>
        snd (upsertMoodHistory tz (snd (upsertMoodHistory tz db userId t1 m1 x1 n1))
               userId t2 m2 x2 n2))"

definition completionUpsertTwice ::
  "zone \<Rightarrow> store option \<Rightarrow> nat \<Rightarrow> nat \<Rightarrow> instant \<times> instant \<times> bool \<Rightarrow>
     instant \<times> instant \<times> bool \<Rightarrow> store option" where
  "completionUpsertTwice tz db habitId userId c1 c2 =
     (case (c1, c2) of ((now1, t1, b1), (now2, t2, b2)) \<Rightarrow>
        snd (upsertHabitCompletion tz now2
               (snd (upsertHabitCompletion tz now1 db habitId userId t1 b1))
               habitId userId t2 b2))"

text \<open>The insight rows of a database, and two small databases of one user.\<close>

definition insightsOf :: "store option \<Rightarrow> insight_row list" where
  "insightsOf db = (case db of None \<Rightarrow> [] | Some s \<Rightarrow> moodInsights s)"

definition moodRow :: "nat \<Rightarrow> nat \<Rightarrow> instant \<Rightarrow> mood \<Rightarrow> rat \<Rightarrow> mood_row" where
  "moodRow i u d c x =
     \<lparr>mh_id = i, mh_userId = u, mh_date = d, mh_mood = Some c, mh_moodIntensity = x, mh_notes = None\<rparr>"

definition weekStore :: store where
  "weekStore = emptyStore\<lparr>moodHistory :=
     [moodRow 11 7 1000 Sad 3, moodRow 12 7 2000 Good 5, moodRow 13 7 3000 Good 7]\<rparr>"

definition tieStore :: store where
  "tieStore = emptyStore\<lparr>moodHistory := [moodRow 11 7 1000 Excellent 5, moodRow 12 7 2000 Good 5]\<rparr>"


text \<open>Databases that already hold records of a key on one day.\<close>

definition dupMoodStore :: store where
  "dupMoodStore = emptyStore\<lparr>moodHistory :=
     [moodRow 11 7 500 Neutral 4, moodRow 12 7 700 Neutral 6]\<rparr>"

definition oneMoodStore :: store where
  "oneMoodStore = emptyStore\<lparr>moodHistory := [moodRow 11 7 500 Neutral 4]\<rparr>"

definition dupCompletionStore :: store where
  "dupCompletionStore = emptyStore\<lparr>habitCompletions :=
     [\<lparr>hc_id = 31, hc_habitId = 4, hc_userId = 7, hc_date = 500, hc_completed = 0,
       hc_notes = None, hc_completedAt = None\<rparr>,
      \<lparr>hc_id = 32, hc_habitId = 4, hc_userId = 7, hc_date = 700, hc_completed = 1,
       hc_notes = None, hc_completedAt = Some 700\<rparr>]\<rparr>"


text \<open>A database with one habit of user 7, and two inputs of \<open>mood.record\<close>.\<close>

definition habitStore :: store where
  "habitStore = emptyStore\<lparr>habits :=
     [\<lparr>hb_id = 21, hb_userId = 7, hb_name = ''Reading'', hb_description = None,
       hb_color = None, hb_icon = None, hb_createdAt = 1000, hb_isActive = 1\<rparr>]\<rparr>"

definition halfInput :: mood_input where
  "halfInput = \<lparr>in_date = 1000, in_mood = ''good'', in_moodIntensity = 11 / 2, in_notes = None\<rparr>"

definition angryInput :: mood_input where
  "angryInput = \<lparr>in_date = 1000, in_mood = ''angry'', in_moodIntensity = 5, in_notes = None\<rparr>"


section \<open>Evaluating the number texts\<close>

lemma digits_numeral:
  "digits (numeral k) =
     (if (numeral k :: nat) < 10 then [digitChar (numeral k)]
      else digits (numeral k div 10) @ [digitChar (numeral k mod 10)])"
  by (rule digits.simps)

lemma digits_small: "digits 0 = ''0''" "digits (Suc 0) = ''1''"
  by (simp_all add: digits.simps digitChar_def)

lemma digits_below_ten: "n < 10 \<Longrightarrow> digits n = [digitChar n]"
  by (simp add: digits.simps)

text \<open>
  The binary rounding shows where the exact quotient lies on a decimal tie: the double of
  41/40 is below 1.025 and the double of 23/20 is below 1.15.
\<close>

lemma toFixed_of_quotient:
  "toFixed 2 (toDouble (41 / 40)) = ''1.02''"
  "toFixed 1 (toDouble (23 / 20)) = ''1.1''"
  "toFixed 2 (toDouble (15 / 3)) = ''5.00''"
  by code_simp+

lemma floor_rat_numeral: "\<lfloor>numeral a / numeral b :: rat\<rfloor> = numeral a div numeral b"
  using floor_divide_of_int_eq [of "numeral a" "numeral b", where ?'a = rat] by simp

section \<open>The day window\<close>

lemma localDay_fixed: "localDay (fixedZone off) t = (t + off) div 86400000"
  by (simp add: localDay_def localTime_def fixedZone_def msPerDay_def)

lemma inDayWindow_fixed:
  "inDayWindow (fixedZone off) t d \<longleftrightarrow>
     t - (t + off) mod 86400000 \<le> d \<and> d \<le> t - (t + off) mod 86400000 + 86399999"
  by (auto simp: inDayWindow_def startOfDay_def endOfDay_def setHours_def localTime_def
      fixedZone_def msPerDay_def Let_def)

lemma fixedZone_unbroken: "unbrokenDays (fixedZone off)"
  unfolding unbrokenDays_def
proof (intro allI)
  fix t d
  let ?m = "(t + off) mod 86400000"
  have m: "0 \<le> ?m" "?m < 86400000" by simp_all
  have t: "t + off = 86400000 * ((t + off) div 86400000) + ?m" by simp
  show "inDayWindow (fixedZone off) t d = (localDay (fixedZone off) d = localDay (fixedZone off) t)"
  proof
    assume "inDayWindow (fixedZone off) t d"
    then have b: "t - ?m \<le> d" "d \<le> t - ?m + 86399999"
      by (simp_all add: inDayWindow_fixed)
    define k where "k = (t + off) div 86400000"
    define r where "r = d + off - 86400000 * k"
    have "0 \<le> r" "r < 86400000" using b t unfolding r_def k_def by linarith+
    moreover have "d + off = r + k * 86400000" by (simp add: r_def)
    ultimately have "(d + off) div 86400000 = k"
      by simp
    then show "localDay (fixedZone off) d = localDay (fixedZone off) t"
      by (simp add: localDay_fixed k_def)
  next
    assume "localDay (fixedZone off) d = localDay (fixedZone off) t"
    then have e: "(d + off) div 86400000 = (t + off) div 86400000"
      by (simp add: localDay_fixed)
    let ?n = "(d + off) mod 86400000"
    have n: "0 \<le> ?n" "?n < 86400000" by simp_all
    have d: "d + off = 86400000 * ((d + off) div 86400000) + ?n" by simp
    have "t - ?m \<le> d" "d \<le> t - ?m + 86399999" using e t d m n by linarith+
    then show "inDayWindow (fixedZone off) t d"
      by (simp add: inDayWindow_fixed)
  qed
qed

lemma utc_unbroken: "unbrokenDays utc"
  unfolding utc_def by (rule fixedZone_unbroken)

lemma unbroken_windowsInDays: "unbrokenDays tz \<Longrightarrow> windowsInDays tz"
  by (simp add: unbrokenDays_def windowsInDays_def)

lemma day_of_span:
  fixes k x :: int
  assumes "86400000 * k \<le> x" "x \<le> 86400000 * k + 86399999"
  shows "x div 86400000 = k"
proof -
  define r where "r = x - 86400000 * k"
  have r: "0 \<le> r" "r < 86400000" using assms by (simp_all add: r_def)
  have "x = r + k * 86400000" by (simp add: r_def)
  then have "x div 86400000 = r div 86400000 + k" by simp
  then show ?thesis using r by simp
qed

text \<open>
  Where the clocks are set back at midnight the windows still lie within their local
  days; what is lost is the second run of the repeated hour, which is in no window.
\<close>

lemma fallBack_windowsInDays: "windowsInDays fallBackZone"
  unfolding windowsInDays_def
proof (intro allI impI)
  fix t d
  assume w: "inDayWindow fallBackZone t d"
  define l where "l = localTime fallBackZone t"
  define k where "k = l div 86400000"
  have m: "l - l mod 86400000 = 86400000 * k"
    by (simp add: k_def minus_mod_eq_mult_div)
  have t: "localDay fallBackZone t = k"
    by (simp add: localDay_def l_def k_def msPerDay_def)
  from w have s: "86400000 * k - offsetOfLocal fallBackZone (86400000 * k) \<le> d"
    and e: "d \<le> 86400000 * k + 86399999 - offsetOfLocal fallBackZone (86400000 * k + 86399999)"
    using m by (simp_all add: inDayWindow_def startOfDay_def endOfDay_def setHours_def Let_def
        l_def [symmetric] msPerDay_def)
  show "localDay fallBackZone d = localDay fallBackZone t"
  proof (cases "k \<le> 0")
    case True
    then have b: "86400000 * k + 7200000 \<le> d" "d \<le> 86400000 * k + 86399999 + 7200000"
      using s e by (simp_all add: fallBackZone_def)
    then have "d < 93600000" using True by simp
    then have "localTime fallBackZone d = d - 7200000"
      by (simp add: localTime_def fallBackZone_def)
    moreover have "(d - 7200000) div 86400000 = k"
      using b by (intro day_of_span) simp_all
    ultimately have "localDay fallBackZone d = k" by (simp add: localDay_def msPerDay_def)
    then show ?thesis by (simp only: t)
  next
    case False
    then have b: "86400000 * k + 10800000 \<le> d" "d \<le> 86400000 * k + 86399999 + 10800000"
      using s e by (simp_all add: fallBackZone_def)
    then have "\<not> d < 93600000" using False by simp
    then have "localTime fallBackZone d = d - 10800000"
      by (simp add: localTime_def fallBackZone_def)
    moreover have "(d - 10800000) div 86400000 = k"
      using b by (intro day_of_span) simp_all
    ultimately have "localDay fallBackZone d = k" by (simp add: localDay_def msPerDay_def)
    then show ?thesis by (simp only: t)
  qed
qed

lemma inDayWindow_localDay:
  "unbrokenDays tz \<Longrightarrow> inDayWindow tz t d \<longleftrightarrow> localDay tz d = localDay tz t"
  by (simp add: unbrokenDays_def)

lemma moodRecordsOn_window:
  "unbrokenDays tz \<Longrightarrow>
     moodRecordsOn tz db u t =
       (case db of None \<Rightarrow> [] | Some s \<Rightarrow> filter (moodOfDay tz u t) (moodHistory s))"
proof -
  assume ub: "unbrokenDays tz"
  have "moodOfDay tz u t = (\<lambda>r. mh_userId r = u \<and> localDay tz (mh_date r) = localDay tz t)"
    by (simp add: fun_eq_iff moodOfDay_def inDayWindow_localDay [OF ub])
  then show ?thesis by (cases db) (simp_all add: moodRecordsOn_def)
qed

lemma completionRecordsOn_window:
  "unbrokenDays tz \<Longrightarrow>
     completionRecordsOn tz db h u t =
       (case db of None \<Rightarrow> []
        | Some s \<Rightarrow> filter (completionOfDay tz h u t) (habitCompletions s))"
proof -
  assume ub: "unbrokenDays tz"
  have "completionOfDay tz h u t =
          (\<lambda>r. hc_habitId r = h \<and> hc_userId r = u \<and> localDay tz (hc_date r) = localDay tz t)"
    by (simp add: fun_eq_iff completionOfDay_def inDayWindow_localDay [OF ub])
  then show ?thesis by (cases db) (simp_all add: completionRecordsOn_def)
qed

section \<open>Day-bucket upserts: two calls in a row\<close>

lemma moodOfDay_same_day:
  "unbrokenDays tz \<Longrightarrow> localDay tz t1 = localDay tz t2 \<Longrightarrow> moodOfDay tz u t2 = moodOfDay tz u t1"
  by (auto simp: moodOfDay_def inDayWindow_localDay fun_eq_iff)

lemma moodOfDay_own:
  "unbrokenDays tz \<Longrightarrow>
     moodOfDay tz u t \<lparr>mh_id = i, mh_userId = u, mh_date = t, mh_mood = m,
       mh_moodIntensity = x, mh_notes = n\<rparr>"
  by (simp add: moodOfDay_def inDayWindow_localDay)

lemma moodOfDay_upd [simp]:
  "moodOfDay tz u t (r\<lparr>mh_mood := m, mh_moodIntensity := x, mh_notes := n\<rparr>) = moodOfDay tz u t r"
  by (simp add: moodOfDay_def)

lemma upsertMood_insert:
  assumes "filter (moodOfDay tz u t) (moodHistory s) = []"
  shows "upsertMoodHistory tz (Some s) u t m x n =
    (Inr (), Some (s\<lparr>moodHistory := moodHistory s @
        [\<lparr>mh_id = autoId (map mh_id (moodHistory s)), mh_userId = u, mh_date = t,
          mh_mood = Some m, mh_moodIntensity = x, mh_notes = n\<rparr>]\<rparr>))"
  using assms by (simp add: upsertMoodHistory_def)

lemma filter_map_upd:
  assumes "\<And>r. P (f r) = P r"
  shows "filter P (map (\<lambda>r. if c r then f r else r) xs) = map (\<lambda>r. if c r then f r else r) (filter P xs)"
  using assms by (induction xs) auto

lemma upsertMood_update:
  assumes "filter (moodOfDay tz u t) (moodHistory s) = e # es"
  shows "upsertMoodHistory tz (Some s) u t m x n =
    (Inr (), Some (s\<lparr>moodHistory :=
        map (\<lambda>r. if mh_id r = mh_id e
                  then r\<lparr>mh_mood := Some m, mh_moodIntensity := x,
                         mh_notes := setCol (map_option Some n) (mh_notes r)\<rparr>
                  else r) (moodHistory s)\<rparr>))"
  using assms by (simp add: upsertMoodHistory_def)

lemma completionOfDay_same_day:
  "unbrokenDays tz \<Longrightarrow> localDay tz t1 = localDay tz t2 \<Longrightarrow>
     completionOfDay tz h u t2 = completionOfDay tz h u t1"
  by (auto simp: completionOfDay_def inDayWindow_localDay fun_eq_iff)

lemma completionOfDay_own:
  "unbrokenDays tz \<Longrightarrow>
     completionOfDay tz h u t \<lparr>hc_id = i, hc_habitId = h, hc_userId = u, hc_date = t,
       hc_completed = c, hc_notes = n, hc_completedAt = a\<rparr>"
  by (simp add: completionOfDay_def inDayWindow_localDay)

lemma completionOfDay_upd [simp]:
  "completionOfDay tz h u t (r\<lparr>hc_completed := c, hc_completedAt := a\<rparr>) = completionOfDay tz h u t r"
  by (simp add: completionOfDay_def)

lemma upsertCompletion_insert:
  assumes "filter (completionOfDay tz h u t) (habitCompletions s) = []"
  shows "upsertHabitCompletion tz now (Some s) h u t c =
    (Inr (), Some (s\<lparr>habitCompletions := habitCompletions s @ [newCompletion s now h u t c]\<rparr>))"
  using assms by (simp add: upsertHabitCompletion_def newCompletion_def)

lemma upsertCompletion_update:
  assumes "filter (completionOfDay tz h u t) (habitCompletions s) = e # es"
  shows "upsertHabitCompletion tz now (Some s) h u t c =
    (Inr (), Some (s\<lparr>habitCompletions :=
        map (\<lambda>r. if hc_id r = hc_id e
                  then r\<lparr>hc_completed := (if c then 1 else 0),
                         hc_completedAt := (if c then Some now else None)\<rparr>
                  else r) (habitCompletions s)\<rparr>))"
  using assms by (simp add: upsertHabitCompletion_def)

lemma upsertMood_single:
  assumes ub: "unbrokenDays tz"
    and "length (moodRecordsOn tz (Some s) u t) \<le> 1"
  shows "\<exists>s' r. snd (upsertMoodHistory tz (Some s) u t m x n) = Some s'
           \<and> moodRecordsOn tz (Some s') u t = [r]
           \<and> mh_mood r = Some m \<and> mh_moodIntensity r = x
           \<and> (\<forall>v. n = Some v \<longrightarrow> mh_notes r = Some v)
           \<and> mh_date r = (case moodRecordsOn tz (Some s) u t of [] \<Rightarrow> t | e # _ \<Rightarrow> mh_date e)"
proof (cases "filter (moodOfDay tz u t) (moodHistory s)")
  case Nil
  show ?thesis
    using Nil by (simp add: upsertMood_insert [OF Nil] moodRecordsOn_window [OF ub]
        moodOfDay_own [OF ub])
next
  case (Cons e es)
  then have "es = []" using assms by (simp add: moodRecordsOn_window [OF ub])
  then show ?thesis
    using Cons by (simp add: upsertMood_update [OF Cons] moodRecordsOn_window [OF ub]
        filter_map_upd setCol_def)
qed

lemma upsertCompletion_single_date:
  assumes ub: "unbrokenDays tz"
    and "length (completionRecordsOn tz (Some s) h u t) \<le> 1"
  shows "\<exists>s' r. snd (upsertHabitCompletion tz now (Some s) h u t c) = Some s'
           \<and> completionRecordsOn tz (Some s') h u t = [r]
           \<and> hc_completed r = (if c then 1 else 0)
           \<and> hc_completedAt r = (if c then Some now else None)
           \<and> hc_date r = (case completionRecordsOn tz (Some s) h u t of [] \<Rightarrow> t | e # _ \<Rightarrow> hc_date e)"
proof (cases "filter (completionOfDay tz h u t) (habitCompletions s)")
  case Nil
  show ?thesis
    using Nil by (simp add: upsertCompletion_insert [OF Nil] completionRecordsOn_window [OF ub]
        newCompletion_def completionOfDay_own [OF ub])
next
  case (Cons e es)
  then have "es = []" using assms by (simp add: completionRecordsOn_window [OF ub])
  then show ?thesis
    using Cons by (simp add: upsertCompletion_update [OF Cons] completionRecordsOn_window [OF ub]
        filter_map_upd)
qed

lemma moodRecordsOn_same_day:
  "localDay tz t1 = localDay tz t2 \<Longrightarrow> moodRecordsOn tz db u t2 = moodRecordsOn tz db u t1"
  by (cases db) (simp_all add: moodRecordsOn_def)

lemma completionRecordsOn_same_day:
  "localDay tz t1 = localDay tz t2 \<Longrightarrow>
     completionRecordsOn tz db h u t2 = completionRecordsOn tz db h u t1"
  by (cases db) (simp_all add: completionRecordsOn_def)

lemma mood_twice_same_day:
  assumes ub: "unbrokenDays tz"
    and one: "length (moodRecordsOn tz (Some s) u t1) \<le> 1"
    and day: "localDay tz t1 = localDay tz t2"
  shows "\<exists>r. moodRecordsOn tz (moodUpsertTwice tz (Some s) u t1 (m1, x1, n1) t2 (m2, x2, n2)) u t1 = [r]
           \<and> mh_mood r = Some m2 \<and> mh_moodIntensity r = x2
           \<and> (\<forall>v. n2 = Some v \<longrightarrow> mh_notes r = Some v)
           \<and> mh_date r = (case moodRecordsOn tz (Some s) u t1 of [] \<Rightarrow> t1 | e # _ \<Rightarrow> mh_date e)"
proof -
  note same = moodRecordsOn_same_day [OF day]
  from upsertMood_single [OF ub one, of m1 x1 n1] obtain s1 r1 where
    1: "snd (upsertMoodHistory tz (Some s) u t1 m1 x1 n1) = Some s1"
    "moodRecordsOn tz (Some s1) u t1 = [r1]"
    "mh_date r1 = (case moodRecordsOn tz (Some s) u t1 of [] \<Rightarrow> t1 | e # _ \<Rightarrow> mh_date e)"
    by blast
  then have "length (moodRecordsOn tz (Some s1) u t2) \<le> 1" by (simp add: same)
  from upsertMood_single [OF ub this, of m2 x2 n2] obtain s2 r2 where
    2: "snd (upsertMoodHistory tz (Some s1) u t2 m2 x2 n2) = Some s2"
    "moodRecordsOn tz (Some s2) u t2 = [r2]"
    "mh_mood r2 = Some m2" "mh_moodIntensity r2 = x2"
    "\<forall>v. n2 = Some v \<longrightarrow> mh_notes r2 = Some v"
    "mh_date r2 = (case moodRecordsOn tz (Some s1) u t2 of [] \<Rightarrow> t2 | e # _ \<Rightarrow> mh_date e)"
    by blast
  have d: "mh_date r2 = mh_date r1" using 2(6) 1(2) by (simp add: same)
  have "moodRecordsOn tz (moodUpsertTwice tz (Some s) u t1 (m1, x1, n1) t2 (m2, x2, n2)) u t1 = [r2]"
    using 1 2 by (simp add: moodUpsertTwice_def same [symmetric])
  then show ?thesis using 2 d 1(3) by simp
qed

lemma completion_twice_same_day:
  assumes ub: "unbrokenDays tz"
    and one: "length (completionRecordsOn tz (Some s) h u t1) \<le> 1"
    and day: "localDay tz t1 = localDay tz t2"
  shows "\<exists>r. completionRecordsOn tz
               (completionUpsertTwice tz (Some s) h u (now1, t1, b1) (now2, t2, b2)) h u t1 = [r]
           \<and> hc_completed r = (if b2 then 1 else 0)
           \<and> hc_completedAt r = (if b2 then Some now2 else None)
           \<and> hc_date r = (case completionRecordsOn tz (Some s) h u t1 of [] \<Rightarrow> t1 | e # _ \<Rightarrow> hc_date e)"
proof -
  note same = completionRecordsOn_same_day [OF day]
  from upsertCompletion_single_date [OF ub one, of now1 b1] obtain s1 r1 where
    1: "snd (upsertHabitCompletion tz now1 (Some s) h u t1 b1) = Some s1"
    "completionRecordsOn tz (Some s1) h u t1 = [r1]"
    "hc_date r1 = (case completionRecordsOn tz (Some s) h u t1 of [] \<Rightarrow> t1 | e # _ \<Rightarrow> hc_date e)"
    by blast
  then have "length (completionRecordsOn tz (Some s1) h u t2) \<le> 1" by (simp add: same)
  from upsertCompletion_single_date [OF ub this, of now2 b2] obtain s2 r2 where
    2: "snd (upsertHabitCompletion tz now2 (Some s1) h u t2 b2) = Some s2"
    "completionRecordsOn tz (Some s2) h u t2 = [r2]"
    "hc_completed r2 = (if b2 then 1 else 0)"
    "hc_completedAt r2 = (if b2 then Some now2 else None)"
    "hc_date r2 = (case completionRecordsOn tz (Some s1) h u t2 of [] \<Rightarrow> t2 | e # _ \<Rightarrow> hc_date e)"
    by blast
  have d: "hc_date r2 = hc_date r1" using 2(5) 1(2) by (simp add: same)
  have "completionRecordsOn tz
          (completionUpsertTwice tz (Some s) h u (now1, t1, b1) (now2, t2, b2)) h u t1 = [r2]"
    using 1 2 by (simp add: completionUpsertTwice_def same [symmetric])
  then show ?thesis using 2 d 1(3) by simp
qed

text \<open>An upsert leaves a record on its day and removes none from any day.\<close>

lemma upsertMood_leaves_record:
  assumes w: "windowsInDays tz"
  shows "\<exists>s'. snd (upsertMoodHistory tz (Some s) u t m x n) = Some s'
     \<and> moodRecordsOn tz (Some s') u t \<noteq> []
     \<and> (moodRecordsOn tz (Some s) u t' \<noteq> [] \<longrightarrow> moodRecordsOn tz (Some s') u t' \<noteq> [])"
proof (cases "filter (moodOfDay tz u t) (moodHistory s)")
  case Nil
  show ?thesis
    by (simp add: upsertMood_insert [OF Nil] moodRecordsOn_def)
next
  case (Cons e es)
  let ?f = "\<lambda>r. r\<lparr>mh_mood := Some m, mh_moodIntensity := x,
                      mh_notes := setCol (map_option Some n) (mh_notes r)\<rparr>"
  let ?P = "\<lambda>d r. mh_userId r = u \<and> localDay tz (mh_date r) = localDay tz d"
  have "e \<in> set (filter (moodOfDay tz u t) (moodHistory s))" using Cons by simp
  then have e: "e \<in> set (moodHistory s)" "?P t e"
    using w by (auto simp: moodOfDay_def windowsInDays_def)
  have inv: "\<And>d r. ?P d (?f r) = ?P d r" by simp
  have "filter (?P t) (moodHistory s) \<noteq> []"
    using e by (auto simp: filter_empty_conv)
  then show ?thesis
    by (simp add: upsertMood_update [OF Cons] moodRecordsOn_def filter_map_upd [where P = "?P d" for d, OF inv])
qed

lemma upsertCompletion_leaves_record:
  assumes w: "windowsInDays tz"
  shows "\<exists>s'. snd (upsertHabitCompletion tz now (Some s) h u t c) = Some s'
     \<and> completionRecordsOn tz (Some s') h u t \<noteq> []
     \<and> (completionRecordsOn tz (Some s) h u t' \<noteq> [] \<longrightarrow> completionRecordsOn tz (Some s') h u t' \<noteq> [])"
proof (cases "filter (completionOfDay tz h u t) (habitCompletions s)")
  case Nil
  show ?thesis
    by (simp add: upsertCompletion_insert [OF Nil] completionRecordsOn_def newCompletion_def)
next
  case (Cons e es)
  let ?f = "\<lambda>r. r\<lparr>hc_completed := (if c then 1 else 0),
                      hc_completedAt := (if c then Some now else None)\<rparr>"
  let ?P = "\<lambda>d r. hc_habitId r = h \<and> hc_userId r = u \<and> localDay tz (hc_date r) = localDay tz d"
  have "e \<in> set (filter (completionOfDay tz h u t) (habitCompletions s))" using Cons by simp
  then have e: "e \<in> set (habitCompletions s)" "?P t e"
    using w by (auto simp: completionOfDay_def windowsInDays_def)
  have inv: "\<And>d r. ?P d (?f r) = ?P d r" by simp
  have "filter (?P t) (habitCompletions s) \<noteq> []"
    using e by (auto simp: filter_empty_conv)
  then show ?thesis
    by (simp add: upsertCompletion_update [OF Cons] completionRecordsOn_def filter_map_upd [where P = "?P d" for d, OF inv])
qed

lemma mood_twice_other_day:
  assumes w: "windowsInDays tz"
    and day: "localDay tz t1 \<noteq> localDay tz t2"
  shows "\<exists>r1 r2. r1 \<in> set (moodRecordsOn tz (moodUpsertTwice tz (Some s) u t1 (m1, x1, n1) t2 (m2, x2, n2)) u t1)
           \<and> r2 \<in> set (moodRecordsOn tz (moodUpsertTwice tz (Some s) u t1 (m1, x1, n1) t2 (m2, x2, n2)) u t2)
           \<and> r1 \<noteq> r2"
proof -
  from upsertMood_leaves_record [OF w, of s u t1 m1 x1 n1] obtain s1 where
    1: "snd (upsertMoodHistory tz (Some s) u t1 m1 x1 n1) = Some s1"
    "moodRecordsOn tz (Some s1) u t1 \<noteq> []" by blast
  from upsertMood_leaves_record [OF w, of s1 u t2 m2 x2 n2 t1] obtain s2 where
    2: "snd (upsertMoodHistory tz (Some s1) u t2 m2 x2 n2) = Some s2"
    "moodRecordsOn tz (Some s2) u t2 \<noteq> []" "moodRecordsOn tz (Some s2) u t1 \<noteq> []"
    using 1(2) by blast
  have tw: "moodUpsertTwice tz (Some s) u t1 (m1, x1, n1) t2 (m2, x2, n2) = Some s2"
    using 1 2 by (simp add: moodUpsertTwice_def)
  obtain r1 r2 where r: "r1 \<in> set (moodRecordsOn tz (Some s2) u t1)"
    "r2 \<in> set (moodRecordsOn tz (Some s2) u t2)"
    using 2(2,3) by (meson last_in_set)
  then have "localDay tz (mh_date r1) = localDay tz t1" "localDay tz (mh_date r2) = localDay tz t2"
    by (simp_all add: moodRecordsOn_def)
  then have "r1 \<noteq> r2" using day by auto
  then show ?thesis using r tw by auto
qed

lemma completion_twice_other_day:
  assumes w: "windowsInDays tz"
    and day: "localDay tz t1 \<noteq> localDay tz t2"
  shows "\<exists>r1 r2. r1 \<in> set (completionRecordsOn tz
                      (completionUpsertTwice tz (Some s) h u (now1, t1, b1) (now2, t2, b2)) h u t1)
           \<and> r2 \<in> set (completionRecordsOn tz
                      (completionUpsertTwice tz (Some s) h u (now1, t1, b1) (now2, t2, b2)) h u t2)
           \<and> r1 \<noteq> r2"
proof -
  from upsertCompletion_leaves_record [OF w, of now1 s h u t1 b1] obtain s1 where
    1: "snd (upsertHabitCompletion tz now1 (Some s) h u t1 b1) = Some s1"
    "completionRecordsOn tz (Some s1) h u t1 \<noteq> []" by blast
  from upsertCompletion_leaves_record [OF w, of now2 s1 h u t2 b2 t1] obtain s2 where
    2: "snd (upsertHabitCompletion tz now2 (Some s1) h u t2 b2) = Some s2"
    "completionRecordsOn tz (Some s2) h u t2 \<noteq> []" "completionRecordsOn tz (Some s2) h u t1 \<noteq> []"
    using 1(2) by blast
  have tw: "completionUpsertTwice tz (Some s) h u (now1, t1, b1) (now2, t2, b2) = Some s2"
    using 1 2 by (simp add: completionUpsertTwice_def)
  obtain r1 r2 where r: "r1 \<in> set (completionRecordsOn tz (Some s2) h u t1)"
    "r2 \<in> set (completionRecordsOn tz (Some s2) h u t2)"
    using 2(2,3) by (meson last_in_set)
  then have "localDay tz (hc_date r1) = localDay tz t1" "localDay tz (hc_date r2) = localDay tz t2"
    by (simp_all add: completionRecordsOn_def)
  then have "r1 \<noteq> r2" using day by auto
  then show ?thesis using r tw by auto
qed

text \<open>
  Claim C1, as the code has it. Same local day, in a zone whose day windows are its local
  days, from a database that holds at most one record of the owning key on that day: an
  upsert at \<open>t1\<close> followed by one at \<open>t2\<close> leaves exactly one record of that key on that
  day; it has the category and intensity (for a habit: the completion flag and timestamp)
  of the second call, the notes of the second call when that call passes notes, and the
  date \<open>t1\<close> when the day had no record before, else the date of the record that was there.
  Different local days, from any database, in a zone whose day windows lie within its
  local days: the two upserts leave two distinct records of the key, one on each day.
\<close>

theorem day_bucket_upsert_twice:
  "(unbrokenDays tz \<and> length (moodRecordsOn tz (Some s) u t1) \<le> 1
      \<and> localDay tz t1 = localDay tz t2 \<longrightarrow>
      (\<exists>r. moodRecordsOn tz (moodUpsertTwice tz (Some s) u t1 (m1, x1, n1) t2 (m2, x2, n2)) u t1 = [r]
         \<and> mh_mood r = Some m2 \<and> mh_moodIntensity r = x2
         \<and> (\<forall>v. n2 = Some v \<longrightarrow> mh_notes r = Some v)
         \<and> mh_date r = (case moodRecordsOn tz (Some s) u t1 of [] \<Rightarrow> t1 | e # _ \<Rightarrow> mh_date e)))
   \<and> (unbrokenDays tz \<and> length (completionRecordsOn tz (Some s) h u t1) \<le> 1
      \<and> localDay tz t1 = localDay tz t2 \<longrightarrow>
      (\<exists>r. completionRecordsOn tz
               (completionUpsertTwice tz (Some s) h u (now1, t1, b1) (now2, t2, b2)) h u t1 = [r]
         \<and> hc_completed r = (if b2 then 1 else 0)
         \<and> hc_completedAt r = (if b2 then Some now2 else None)
         \<and> hc_date r = (case completionRecordsOn tz (Some s) h u t1 of [] \<Rightarrow> t1 | e # _ \<Rightarrow> hc_date e)))
   \<and> (windowsInDays tz \<and> localDay tz t1 \<noteq> localDay tz t2 \<longrightarrow>
      (\<exists>r1 r2. r1 \<in> set (moodRecordsOn tz (moodUpsertTwice tz (Some s) u t1 (m1, x1, n1) t2 (m2, x2, n2)) u t1)
         \<and> r2 \<in> set (moodRecordsOn tz (moodUpsertTwice tz (Some s) u t1 (m1, x1, n1) t2 (m2, x2, n2)) u t2)
         \<and> r1 \<noteq> r2))
   \<and> (windowsInDays tz \<and> localDay tz t1 \<noteq> localDay tz t2 \<longrightarrow>
      (\<exists>r1 r2. r1 \<in> set (completionRecordsOn tz
                     (completionUpsertTwice tz (Some s) h u (now1, t1, b1) (now2, t2, b2)) h u t1)
         \<and> r2 \<in> set (completionRecordsOn tz
                     (completionUpsertTwice tz (Some s) h u (now1, t1, b1) (now2, t2, b2)) h u t2)
         \<and> r1 \<noteq> r2))"
  using mood_twice_same_day [of tz s u t1 t2 m1 x1 n1 m2 x2 n2]
    completion_twice_same_day [of tz s h u t1 t2 now1 b1 now2 b2]
    mood_twice_other_day [of tz t1 t2 s u m1 x1 n1 m2 x2 n2]
    completion_twice_other_day [of tz t1 t2 s h u now1 b1 now2 b2]
  by blast

theorem day_bucket_upsert_twice_witness:
  "(\<exists>r. moodRecordsOn utc (moodUpsertTwice utc (Some emptyStore) 7 1000 (Good, 7, Some ''a'') 2000 (Sad, 3, Some ''b'')) 7 1000 = [r]
       \<and> mh_mood r = Some Sad \<and> mh_moodIntensity r = 3 \<and> mh_notes r = Some ''b'' \<and> mh_date r = 1000)
   \<and> (\<exists>r. moodRecordsOn utc (moodUpsertTwice utc (Some oneMoodStore) 7 1000 (Good, 7, None) 2000 (Sad, 3, None)) 7 1000 = [r]
       \<and> mh_mood r = Some Sad \<and> mh_moodIntensity r = 3 \<and> mh_date r = 500)
   \<and> (\<exists>r. completionRecordsOn utc
            (completionUpsertTwice utc (Some emptyStore) 4 7 (1500, 1000, True) (2500, 2000, False)) 4 7 1000 = [r]
       \<and> hc_completed r = 0 \<and> hc_completedAt r = None \<and> hc_date r = 1000)
   \<and> (\<exists>r1 r2. r1 \<in> set (moodRecordsOn utc (moodUpsertTwice utc (Some dupMoodStore) 7 1000 (Good, 7, None) 86400005 (Sad, 3, None)) 7 1000)
       \<and> r2 \<in> set (moodRecordsOn utc (moodUpsertTwice utc (Some dupMoodStore) 7 1000 (Good, 7, None) 86400005 (Sad, 3, None)) 7 86400005)
       \<and> r1 \<noteq> r2)
   \<and> (\<exists>r1 r2. r1 \<in> set (completionRecordsOn utc
            (completionUpsertTwice utc (Some emptyStore) 4 7 (1500, 1000, True) (86400900, 86400005, True)) 4 7 1000)
       \<and> r2 \<in> set (completionRecordsOn utc
            (completionUpsertTwice utc (Some emptyStore) 4 7 (1500, 1000, True) (86400900, 86400005, True)) 4 7 86400005)
       \<and> r1 \<noteq> r2)
   \<and> (\<exists>r1 r2. r1 \<in> set (moodRecordsOn fallBackZone
            (moodUpsertTwice fallBackZone (Some emptyStore) 7 95400000 (Good, 7, None) 100000000 (Sad, 3, None)) 7 95400000)
       \<and> r2 \<in> set (moodRecordsOn fallBackZone
            (moodUpsertTwice fallBackZone (Some emptyStore) 7 95400000 (Good, 7, None) 100000000 (Sad, 3, None)) 7 100000000)
       \<and> r1 \<noteq> r2)"
proof -
  have e: "moodRecordsOn utc (Some emptyStore) 7 1000 = []"
    "completionRecordsOn utc (Some emptyStore) 4 7 1000 = []"
    by (simp_all add: moodRecordsOn_def completionRecordsOn_def emptyStore_def)
  have o: "moodRecordsOn utc (Some oneMoodStore) 7 1000 = [moodRow 11 7 500 Neutral 4]"
    by (simp add: moodRecordsOn_def oneMoodStore_def emptyStore_def moodRow_def
        utc_def localDay_fixed)
  have d: "localDay utc 1000 = localDay utc 2000" "localDay utc 1000 \<noteq> localDay utc 86400005"
    by (simp_all add: utc_def localDay_fixed)
  have f: "localDay fallBackZone 95400000 \<noteq> localDay fallBackZone 100000000"
    by code_simp
  note ub = utc_unbroken
  note w = unbroken_windowsInDays [OF utc_unbroken]
  note T = day_bucket_upsert_twice [where tz = utc]
  note E = day_bucket_upsert_twice [where tz = fallBackZone and s = emptyStore and u = 7 and h = 4
      and ?t1.0 = 95400000 and ?t2.0 = 100000000 and ?m1.0 = Good and ?x1.0 = 7 and ?n1.0 = None
      and ?m2.0 = Sad and ?x2.0 = 3 and ?n2.0 = None
      and ?now1.0 = 1500 and ?b1.0 = True and ?now2.0 = 86400900 and ?b2.0 = True]
  note A = T [where s = emptyStore and u = 7 and h = 4
      and ?t1.0 = 1000 and ?t2.0 = 2000 and ?m1.0 = Good and ?x1.0 = 7 and ?n1.0 = "Some ''a''"
      and ?m2.0 = Sad and ?x2.0 = 3 and ?n2.0 = "Some ''b''"
      and ?now1.0 = 1500 and ?b1.0 = True and ?now2.0 = 2500 and ?b2.0 = False]
  note B = T [where s = oneMoodStore and u = 7 and h = 4
      and ?t1.0 = 1000 and ?t2.0 = 2000 and ?m1.0 = Good and ?x1.0 = 7 and ?n1.0 = None
      and ?m2.0 = Sad and ?x2.0 = 3 and ?n2.0 = None
      and ?now1.0 = 1500 and ?b1.0 = True and ?now2.0 = 2500 and ?b2.0 = False]
  note C = T [where s = dupMoodStore and u = 7 and h = 4
      and ?t1.0 = 1000 and ?t2.0 = 86400005 and ?m1.0 = Good and ?x1.0 = 7 and ?n1.0 = None
      and ?m2.0 = Sad and ?x2.0 = 3 and ?n2.0 = None
      and ?now1.0 = 1500 and ?b1.0 = True and ?now2.0 = 86400900 and ?b2.0 = True]
  note D = T [where s = emptyStore and u = 7 and h = 4
      and ?t1.0 = 1000 and ?t2.0 = 86400005 and ?m1.0 = Good and ?x1.0 = 7 and ?n1.0 = None
      and ?m2.0 = Sad and ?x2.0 = 3 and ?n2.0 = None
      and ?now1.0 = 1500 and ?b1.0 = True and ?now2.0 = 86400900 and ?b2.0 = True]
  have 1: "\<exists>r. moodRecordsOn utc (moodUpsertTwice utc (Some emptyStore) 7 1000 (Good, 7, Some ''a'') 2000 (Sad, 3, Some ''b'')) 7 1000 = [r]
       \<and> mh_mood r = Some Sad \<and> mh_moodIntensity r = 3 \<and> mh_notes r = Some ''b'' \<and> mh_date r = 1000"
    using A e d ub by simp
  have 2: "\<exists>r. moodRecordsOn utc (moodUpsertTwice utc (Some oneMoodStore) 7 1000 (Good, 7, None) 2000 (Sad, 3, None)) 7 1000 = [r]
       \<and> mh_mood r = Some Sad \<and> mh_moodIntensity r = 3 \<and> mh_date r = 500"
    using B o d ub by (simp add: moodRow_def)
  have 3: "\<exists>r. completionRecordsOn utc
            (completionUpsertTwice utc (Some emptyStore) 4 7 (1500, 1000, True) (2500, 2000, False)) 4 7 1000 = [r]
       \<and> hc_completed r = 0 \<and> hc_completedAt r = None \<and> hc_date r = 1000"
    using A e d ub by simp
  have 4: "\<exists>r1 r2. r1 \<in> set (moodRecordsOn fallBackZone
            (moodUpsertTwice fallBackZone (Some emptyStore) 7 95400000 (Good, 7, None) 100000000 (Sad, 3, None)) 7 95400000)
       \<and> r2 \<in> set (moodRecordsOn fallBackZone
            (moodUpsertTwice fallBackZone (Some emptyStore) 7 95400000 (Good, 7, None) 100000000 (Sad, 3, None)) 7 100000000)
       \<and> r1 \<noteq> r2"
    using E f fallBack_windowsInDays by blast
  show ?thesis using 1 2 3 4 C D d w by blast
qed

text \<open>
  Claim C1 as stated speaks of every database and every zone. Two records of the key
  already on the day stay two (only the first found is updated), and a record already on
  the day keeps its own date, not \<open>t1\<close>. And where the clocks are set back at midnight, a
  first upsert in the second run of the repeated hour and a second one earlier on the same
  local day leave two records of that day: the first record lies after the end of the
  day window.
\<close>

theorem upsert_start_state_counterexample:
  "localDay utc 1000 = localDay utc 2000
   \<and> length (moodRecordsOn utc
        (moodUpsertTwice utc (Some dupMoodStore) 7 1000 (Good, 7, None) 2000 (Sad, 3, None)) 7 1000) = 2
   \<and> map mh_date (moodRecordsOn utc
        (moodUpsertTwice utc (Some oneMoodStore) 7 1000 (Good, 7, None) 2000 (Sad, 3, None)) 7 1000) = [500]
   \<and> (500 :: int) \<noteq> 1000
   \<and> localDay fallBackZone 95400000 = localDay fallBackZone 43200000
   \<and> length (moodRecordsOn fallBackZone
        (moodUpsertTwice fallBackZone (Some emptyStore) 7 95400000 (Good, 7, None) 43200000 (Sad, 3, None))
        7 95400000) = 2"
proof -
  have 1: "localDay utc 1000 = localDay utc 2000"
    by (simp add: utc_def localDay_fixed)
  have 2: "length (moodRecordsOn utc
        (moodUpsertTwice utc (Some dupMoodStore) 7 1000 (Good, 7, None) 2000 (Sad, 3, None)) 7 1000) = 2"
    by code_simp
  have 3: "map mh_date (moodRecordsOn utc
        (moodUpsertTwice utc (Some oneMoodStore) 7 1000 (Good, 7, None) 2000 (Sad, 3, None)) 7 1000) = [500]"
    by code_simp
  have 4: "localDay fallBackZone 95400000 = localDay fallBackZone 43200000"
    by code_simp
  have 5: "length (moodRecordsOn fallBackZone
        (moodUpsertTwice fallBackZone (Some emptyStore) 7 95400000 (Good, 7, None) 43200000 (Sad, 3, None))
        7 95400000) = 2"
    by code_simp
  show ?thesis using 1 2 3 4 5 by simp
qed

text \<open>
  What the theorem leaves open: a second call without notes. The update then drops the
  \<open>notes\<close> key and the record keeps the notes of the first call, where the insert branch
  would have stored none.
\<close>

lemma mood_upsert_keeps_old_notes:
  "map mh_notes (moodRecordsOn utc
     (moodUpsertTwice utc (Some emptyStore) 7 1000 (Good, 7, Some ''a'') 2000 (Sad, 3, None)) 7 1000)
   = [Some ''a'']"
  by code_simp

lemma completion_true_stamped:
  assumes ub: "unbrokenDays tz"
  shows "\<exists>r rs. completionRecordsOn tz (snd (upsertHabitCompletion tz now (Some s) h u t True)) h u t = r # rs
     \<and> hc_completed r = 1 \<and> hc_completedAt r = Some now"
proof (cases "filter (completionOfDay tz h u t) (habitCompletions s)")
  case Nil
  show ?thesis
    using Nil by (simp add: upsertCompletion_insert [OF Nil] completionRecordsOn_window [OF ub]
        newCompletion_def completionOfDay_own [OF ub])
next
  case (Cons e es)
  show ?thesis
    using Cons by (simp add: upsertCompletion_update [OF Cons] completionRecordsOn_window [OF ub]
        filter_map_upd)
qed

lemma completion_true_stored:
  assumes w: "windowsInDays tz"
  shows "\<exists>r\<in>set (completionRecordsOn tz (snd (upsertHabitCompletion tz now (Some s) h u t True)) h u t).
     hc_completed r = 1 \<and> hc_completedAt r = Some now"
proof (cases "filter (completionOfDay tz h u t) (habitCompletions s)")
  case Nil
  show ?thesis
    by (simp add: upsertCompletion_insert [OF Nil] completionRecordsOn_def newCompletion_def)
next
  case (Cons e es)
  let ?f = "\<lambda>r. r\<lparr>hc_completed := 1, hc_completedAt := Some now\<rparr>"
  let ?P = "\<lambda>r. hc_habitId r = h \<and> hc_userId r = u \<and> localDay tz (hc_date r) = localDay tz t"
  have "e \<in> set (filter (completionOfDay tz h u t) (habitCompletions s))" using Cons by simp
  then have e: "e \<in> set (habitCompletions s)" "?P e"
    using w by (auto simp: completionOfDay_def windowsInDays_def)
  let ?g = "\<lambda>r. if hc_id r = hc_id e then ?f r else r"
  have "?g e \<in> ?g ` set (habitCompletions s)" using e(1) by (rule imageI)
  then have "?f e \<in> set (filter ?P (map ?g (habitCompletions s)))"
    using e(2) by simp
  then show ?thesis
    by (intro bexI [of _ "?f e"]) (simp_all add: upsertCompletion_update [OF Cons] completionRecordsOn_def)
qed

text \<open>
  Claim C8, as the code has it. In a zone whose day windows are its local days, starting
  from a database with at most one completion of the habit on that day, an upsert with
  \<open>completed = true\<close> followed by one on the same local day with \<open>completed = false\<close> leaves
  exactly one completion record of that (habit, user, day), with \<open>completed = 0\<close> and no
  completion timestamp. After an upsert with \<open>completed = true\<close> on any database, in a zone
  whose day windows lie within its local days, a record of that (habit, user, day) is
  stored with \<open>completed = 1\<close> and the timestamp of the call; where the day windows are the
  local days it is the first record of the day.
\<close>

theorem habit_toggle_clears_timestamp:
  "(unbrokenDays tz \<and> length (completionRecordsOn tz (Some s) h u t1) \<le> 1
      \<and> localDay tz t1 = localDay tz t2 \<longrightarrow>
      (\<exists>r. completionRecordsOn tz
              (completionUpsertTwice tz (Some s) h u (now1, t1, True) (now2, t2, False)) h u t1 = [r]
         \<and> hc_completed r = 0 \<and> hc_completedAt r = None))
   \<and> (windowsInDays tz \<longrightarrow>
      (\<exists>r\<in>set (completionRecordsOn tz (snd (upsertHabitCompletion tz now (Some s) h u t True)) h u t).
         hc_completed r = 1 \<and> hc_completedAt r = Some now))
   \<and> (unbrokenDays tz \<longrightarrow>
      (\<exists>r rs. completionRecordsOn tz (snd (upsertHabitCompletion tz now (Some s) h u t True)) h u t = r # rs
         \<and> hc_completed r = 1 \<and> hc_completedAt r = Some now))"
proof (intro conjI impI)
  assume a: "unbrokenDays tz \<and> length (completionRecordsOn tz (Some s) h u t1) \<le> 1
      \<and> localDay tz t1 = localDay tz t2"
  from completion_twice_same_day [of tz s h u t1 t2 now1 True now2 False] a obtain r where
    "completionRecordsOn tz
       (completionUpsertTwice tz (Some s) h u (now1, t1, True) (now2, t2, False)) h u t1 = [r]"
    "hc_completed r = 0" "hc_completedAt r = None" by auto
  then show "\<exists>r. completionRecordsOn tz
              (completionUpsertTwice tz (Some s) h u (now1, t1, True) (now2, t2, False)) h u t1 = [r]
         \<and> hc_completed r = 0 \<and> hc_completedAt r = None" by simp
next
  assume "windowsInDays tz"
  then show "\<exists>r\<in>set (completionRecordsOn tz (snd (upsertHabitCompletion tz now (Some s) h u t True)) h u t).
         hc_completed r = 1 \<and> hc_completedAt r = Some now"
    by (rule completion_true_stored)
next
  assume "unbrokenDays tz"
  then show "\<exists>r rs. completionRecordsOn tz (snd (upsertHabitCompletion tz now (Some s) h u t True)) h u t = r # rs
         \<and> hc_completed r = 1 \<and> hc_completedAt r = Some now"
    by (rule completion_true_stamped)
qed

theorem habit_toggle_clears_timestamp_witness:
  "(\<exists>r. completionRecordsOn utc
          (completionUpsertTwice utc (Some emptyStore) 4 7 (1500, 1000, True) (2500, 2000, False)) 4 7 1000 = [r]
       \<and> hc_completed r = 0 \<and> hc_completedAt r = None)
   \<and> (\<exists>r rs. completionRecordsOn utc (snd (upsertHabitCompletion utc 1500 (Some dupCompletionStore) 4 7 1000 True)) 4 7 1000 = r # rs
       \<and> hc_completed r = 1 \<and> hc_completedAt r = Some 1500)
   \<and> (\<exists>r\<in>set (completionRecordsOn fallBackZone
          (snd (upsertHabitCompletion fallBackZone 95400000 (Some emptyStore) 4 7 95400000 True)) 4 7 95400000).
       hc_completed r = 1 \<and> hc_completedAt r = Some 95400000)"
proof -
  have e: "length (completionRecordsOn utc (Some emptyStore) 4 7 1000) \<le> 1"
    by (simp add: completionRecordsOn_def emptyStore_def)
  have d: "localDay utc 1000 = localDay utc 2000"
    by (simp add: utc_def localDay_fixed)
  note A = habit_toggle_clears_timestamp [where tz = utc and s = emptyStore and h = 4 and u = 7
      and ?t1.0 = 1000 and ?t2.0 = 2000 and ?now1.0 = 1500 and ?now2.0 = 2500
      and now = 1500 and t = 1000]
  note B = habit_toggle_clears_timestamp [where tz = utc and s = dupCompletionStore and h = 4 and u = 7
      and ?t1.0 = 1000 and ?t2.0 = 2000 and ?now1.0 = 1500 and ?now2.0 = 2500
      and now = 1500 and t = 1000]
  note C = habit_toggle_clears_timestamp [where tz = fallBackZone and s = emptyStore and h = 4 and u = 7
      and ?t1.0 = 1000 and ?t2.0 = 2000 and ?now1.0 = 1500 and ?now2.0 = 2500
      and now = 95400000 and t = 95400000]
  show ?thesis
    using A B C e d utc_unbroken fallBack_windowsInDays by blast
qed

text \<open>
  Claim C8 as stated speaks of every database and every zone. With two completions of the
  habit already on the day, only the first found is updated and two records remain, the
  second one still completed. And where the clocks are set back at midnight, a toggle to
  true in the second run of the repeated hour and a toggle to false earlier on the same
  local day leave two records of that day, the first still completed.
\<close>

theorem habit_toggle_duplicates_counterexample:
  "localDay utc 1000 = localDay utc 2000
   \<and> map hc_completed (completionRecordsOn utc
        (completionUpsertTwice utc (Some dupCompletionStore) 4 7 (1500, 1000, True) (2500, 2000, False))
        4 7 1000) = [0, 1]
   \<and> localDay fallBackZone 95400000 = localDay fallBackZone 43200000
   \<and> map hc_completed (completionRecordsOn fallBackZone
        (completionUpsertTwice fallBackZone (Some emptyStore) 4 7
           (95400000, 95400000, True) (95500000, 43200000, False))
        4 7 95400000) = [1, 0]"
proof -
  have 1: "localDay utc 1000 = localDay utc 2000"
    by (simp add: utc_def localDay_fixed)
  have 2: "map hc_completed (completionRecordsOn utc
        (completionUpsertTwice utc (Some dupCompletionStore) 4 7 (1500, 1000, True) (2500, 2000, False))
        4 7 1000) = [0, 1]"
    by code_simp
  have 3: "localDay fallBackZone 95400000 = localDay fallBackZone 43200000"
    by code_simp
  have 4: "map hc_completed (completionRecordsOn fallBackZone
        (completionUpsertTwice fallBackZone (Some emptyStore) 4 7
           (95400000, 95400000, True) (95500000, 43200000, False))
        4 7 95400000) = [1, 0]"
    by code_simp
  show ?thesis using 1 2 3 4 by simp
qed

section \<open>The dominant category\<close>

lemma hd_insort_key:
  "hd (insort_key f x ys) = (if ys = [] \<or> f x \<le> f (hd ys) then x else hd ys)"
  by (cases ys) auto

lemma sort_key_hd_first_min:
  fixes f :: "'a \<Rightarrow> int"
  assumes "xs \<noteq> []"
  shows "\<exists>pre post. xs = pre @ hd (sort_key f xs) # post
           \<and> (\<forall>x\<in>set pre. f (hd (sort_key f xs)) < f x)
           \<and> (\<forall>x\<in>set xs. f (hd (sort_key f xs)) \<le> f x)"
  using assms
proof (induction xs)
  case Nil
  then show ?case by simp
next
  case (Cons x xs)
  let ?ys = "sort_key f xs"
  have s: "sort_key f (x # xs) = insort_key f x ?ys" by simp
  show ?case
  proof (cases "xs = []")
    case True
    then show ?thesis by (auto intro: exI [of _ "[]"])
  next
    case False
    from Cons.IH [OF False] obtain pre post where
      d: "xs = pre @ hd ?ys # post"
      and lt: "\<forall>y\<in>set pre. f (hd ?ys) < f y"
      and le: "\<forall>y\<in>set xs. f (hd ?ys) \<le> f y" by blast
    have ne: "?ys \<noteq> []" using False by (metis length_0_conv length_sort)
    show ?thesis
    proof (cases "f x \<le> f (hd ?ys)")
      case True
      then have h: "hd (sort_key f (x # xs)) = x" by (simp add: hd_insort_key)
      have "x # xs = [] @ x # xs" by simp
      moreover have "\<forall>y\<in>set (x # xs). f x \<le> f y" using True le by auto
      ultimately show ?thesis unfolding h by (metis empty_iff list.set(1))
    next
      case False
      then have h: "hd (sort_key f (x # xs)) = hd ?ys" using ne by (simp add: hd_insort_key)
      have "x # xs = (x # pre) @ hd ?ys # post" using d by simp
      moreover have "\<forall>y\<in>set (x # pre). f (hd ?ys) < f y" using False lt by auto
      moreover have "\<forall>y\<in>set (x # xs). f (hd ?ys) \<le> f y" using False le by auto
      ultimately show ?thesis unfolding h by blast
    qed
  qed
qed

text \<open>The dictionary after a list of keys has been counted into it.\<close>

lemma map_of_bump:
  "map_of (bump cs k) = (map_of cs)(k \<mapsto> (case map_of cs k of None \<Rightarrow> 1 | Some c \<Rightarrow> c + 1))"
  by (induction cs k rule: bump.induct) (auto simp: fun_eq_iff)

lemma keys_bump:
  "map fst (bump cs k) = (if k \<in> set (map fst cs) then map fst cs else map fst cs @ [k])"
  by (induction cs k rule: bump.induct) auto

lemma moodCounts_keys: "moodCounts moods = foldl bump [] (map moodKey moods)"
  by (simp add: moodCounts_def foldl_map)

lemma counted_keys: "map fst (foldl bump [] ks) = rev (remdups (rev ks))"
proof (induction ks rule: rev_induct)
  case Nil
  show ?case by simp
next
  case (snoc k ks)
  have "set (map fst (foldl bump [] ks)) = set ks" by (simp add: snoc)
  then show ?case by (simp add: keys_bump snoc)
qed

lemma counted_values:
  "map_of (foldl bump [] ks) k = (if k \<in> set ks then Some (count_list ks k) else None)"
proof (induction ks arbitrary: k rule: rev_induct)
  case Nil
  show ?case by simp
next
  case (snoc x ks)
  show ?case by (cases "x \<in> set ks") (auto simp: map_of_bump snoc)
qed

lemma counted_entry:
  "(k, c) \<in> set (foldl bump [] ks) \<longleftrightarrow> k \<in> set ks \<and> c = count_list ks k"
proof -
  have "distinct (map fst (foldl bump [] ks))" by (simp add: counted_keys)
  then have "(k, c) \<in> set (foldl bump [] ks) \<longleftrightarrow> map_of (foldl bump [] ks) k = Some c"
    by simp
  then show ?thesis by (auto simp: counted_values)
qed

lemma remdups_append_filter:
  "remdups (xs @ ys) = remdups (filter (\<lambda>x. x \<notin> set ys) xs) @ remdups ys"
  by (induction xs) auto

lemma firsts_split:
  assumes "d \<notin> set kp"
  shows "\<exists>B. rev (remdups (rev (kp @ d # kq))) = rev (remdups (rev kp)) @ d # B"
proof -
  have "remdups (rev kq @ d # rev kp)
      = remdups (filter (\<lambda>x. x \<notin> set (d # rev kp)) (rev kq)) @ remdups (d # rev kp)"
    by (rule remdups_append_filter)
  also have "remdups (d # rev kp) = d # remdups (rev kp)" using assms by simp
  finally show ?thesis by simp
qed

lemma takeWhile_upto_first:
  "d \<notin> set A \<Longrightarrow> takeWhile (\<lambda>x. x \<noteq> d) (A @ d # B) = A"
  by (induction A) auto

lemma prefix_unique:
  assumes "distinct xs" "xs = A @ d # B" "xs = A' @ d # B'"
  shows "A = A'"
proof -
  have "distinct (A @ d # B)" "distinct (A' @ d # B')" using assms by simp_all
  then have "d \<notin> set A" "d \<notin> set A'" by simp_all
  then have "takeWhile (\<lambda>x. x \<noteq> d) (A @ d # B) = A" "takeWhile (\<lambda>x. x \<noteq> d) (A' @ d # B') = A'"
    by (simp_all add: takeWhile_upto_first)
  then show ?thesis using assms by simp
qed

lemma moodKey_nonempty: "moodKey m \<noteq> []"
  by (simp add: moodKey_def moodName_def split: option.splits mood.splits)

lemma dominant_first_max:
  assumes "moods \<noteq> []"
  defines "ks \<equiv> map moodKey moods"
  defines "d \<equiv> dominantOf (moodCounts moods)"
  shows "\<exists>pre post. ks = pre @ d # post \<and> d \<notin> set pre
           \<and> (\<forall>k\<in>set pre. count_list ks k < count_list ks d)
           \<and> (\<forall>k\<in>set post. count_list ks k \<le> count_list ks d)"
proof -
  let ?cs = "foldl bump [] ks"
  let ?f = "\<lambda>(k, c). - int c"
  have cs: "moodCounts moods = ?cs" by (simp add: moodCounts_keys ks_def)
  have "ks \<noteq> []" using assms(1) by (simp add: ks_def)
  then have "map fst ?cs \<noteq> []" by (simp add: counted_keys)
  then have ne: "?cs \<noteq> []" by auto
  then have sne: "sort_key ?f ?cs \<noteq> []" by (metis length_0_conv length_sort)
  obtain e c where h: "hd (sort_key ?f ?cs) = (e, c)" by (cases "hd (sort_key ?f ?cs)")
  from sort_key_hd_first_min [OF ne, of ?f] obtain pre' post' where
    dec: "?cs = pre' @ (e, c) # post'"
    and lt: "\<forall>x\<in>set pre'. ?f (e, c) < ?f x"
    and le: "\<forall>x\<in>set ?cs. ?f (e, c) \<le> ?f x" unfolding h by blast
  have ein: "(e, c) \<in> set ?cs" using dec by (metis in_set_conv_decomp)
  then have e: "e \<in> set ks" "c = count_list ks e" by (simp_all add: counted_entry)
  then have "e \<noteq> []" using moodKey_nonempty by (auto simp: ks_def)
  then have d: "d = e"
    using h sne by (cases "sort_key ?f ?cs") (auto simp: d_def dominantOf_def cs)
  from split_list_first [OF e(1)] obtain kp kq where
    k: "ks = kp @ e # kq" "e \<notin> set kp" by blast
  obtain B where B: "map fst ?cs = rev (remdups (rev kp)) @ e # B"
    using firsts_split [OF k(2), of kq] unfolding counted_keys k(1) by blast
  have A: "map fst ?cs = map fst pre' @ e # map fst post'"
    by (subst dec) simp
  have dist: "distinct (map fst ?cs)" by (simp add: counted_keys)
  have pk: "map fst pre' = rev (remdups (rev kp))"
    by (rule prefix_unique [OF dist A B])
  have 1: "count_list ks x < count_list ks e" if "x \<in> set kp" for x
  proof -
    have "x \<in> set (map fst pre')" using that by (simp add: pk)
    then obtain cx where cx: "(x, cx) \<in> set pre'" by auto
    then have "(x, cx) \<in> set ?cs" by (subst dec) simp
    then have "cx = count_list ks x" by (simp add: counted_entry)
    moreover have "?f (e, c) < ?f (x, cx)" using lt cx by blast
    ultimately show ?thesis using e(2) by simp
  qed
  have 2: "count_list ks x \<le> count_list ks e" if "x \<in> set ks" for x
  proof -
    have "(x, count_list ks x) \<in> set ?cs" using that by (simp add: counted_entry)
    then have "?f (e, c) \<le> ?f (x, count_list ks x)" using le by blast
    then show ?thesis using e(2) by simp
  qed
  have "\<forall>x\<in>set kq. count_list ks x \<le> count_list ks e" using 2 k(1) by auto
  then show ?thesis using k 1 unfolding d by blast
qed

section \<open>Stored insights\<close>

lemma generateInsights_stores:
  assumes "getMoodHistoryByDateRange (Some s) u ps pe \<noteq> []"
  shows "generateInsights (Some s) u p ps pe =
    (Inr (), Some (s\<lparr>moodInsights := moodInsights s @
       [(buildInsight u p ps pe (getMoodHistoryByDateRange (Some s) u ps pe) (getHabitsByUser (Some s) u))
          \<lparr>mi_id := autoId (map mi_id (moodInsights s))\<rparr>]\<rparr>))"
  using assms by (simp add: generateInsights_def createMoodInsight_def Let_def)

lemma weekStore_range:
  "getMoodHistoryByDateRange (Some weekStore) 7 0 10000 =
     [moodRow 13 7 3000 Good 7, moodRow 12 7 2000 Good 5, moodRow 11 7 1000 Sad 3]"
  by (simp add: getMoodHistoryByDateRange_def weekStore_def emptyStore_def moodRow_def)

lemma tieStore_range:
  "getMoodHistoryByDateRange (Some tieStore) 7 0 10000 =
     [moodRow 12 7 2000 Good 5, moodRow 11 7 1000 Excellent 5]"
  by (simp add: getMoodHistoryByDateRange_def tieStore_def emptyStore_def moodRow_def)

lemma week_counts:
  "moodCounts [moodRow 13 7 3000 Good 7, moodRow 12 7 2000 Good 5, moodRow 11 7 1000 Sad 3]
     = [(''good'', 2), (''sad'', 1)]"
  by (simp add: moodCounts_def moodKey_def moodName_def moodRow_def)

lemma week_average:
  "averageMoodScore [moodRow 13 7 3000 Good 7, moodRow 12 7 2000 Good 5, moodRow 11 7 1000 Sad 3] = ''5.00''"
  by code_simp

text \<open>
  Claim C3, as the code has it. For the moods good/7, good/5, sad/3 (newest first) and the
  period \<open>week\<close>, \<open>generateInsights\<close> stores a row whose distribution is exactly
  \<open>good: 2, sad: 1\<close> (the dictionary starts empty, so a category without records has no
  entry, and \<open>unknown\<close> appears only for a record without category), whose average is the
  text \<open>5.00\<close>, whose dominant mood is \<open>good\<close>, and whose summary is the sentence below.
\<close>

theorem week_aggregate:
  "generateInsights (Some weekStore) 7 Week 0 10000 =
     (Inr (), Some (weekStore\<lparr>moodInsights :=
        [\<lparr>mi_id = 1, mi_userId = 7, mi_period = Week, mi_periodStart = 0, mi_periodEnd = 10000,
          mi_averageMoodScore = ''5.00'', mi_dominantMood = ''good'',
          mi_moodDistribution = [(''good'', 2), (''sad'', 1)],
          mi_topHabitsCorrelation = [],
          mi_insights = ''During this week, your dominant mood was good with an average intensity of 5.00/10. You tracked 3 mood entries.''\<rparr>]\<rparr>))"
proof -
  have ne: "getMoodHistoryByDateRange (Some weekStore) 7 0 10000 \<noteq> []"
    using weekStore_range by simp
  have h: "getHabitsByUser (Some weekStore) 7 = []"
    by (simp add: getHabitsByUser_def weekStore_def emptyStore_def)
  have i: "moodInsights weekStore = []"
    by (simp add: weekStore_def emptyStore_def)
  show ?thesis
    unfolding generateInsights_stores [OF ne] weekStore_range h i
    by (simp add: buildInsight_def week_counts week_average dominantOf_def insightText_def
        periodName_def digits_below_ten digitChar_def autoId_def)
qed

text \<open>
  Claim C3 as stated has the distribution hold 0 for the other known categories: the
  stored distribution has no entry for \<open>excellent\<close>.
\<close>

theorem week_distribution_counterexample:
  "map (\<lambda>r. map_of (mi_moodDistribution r) ''excellent'')
     (insightsOf (snd (generateInsights (Some weekStore) 7 Week 0 10000))) = [None]
   \<and> map (\<lambda>r. map_of (mi_moodDistribution r) ''excellent'')
     (insightsOf (snd (generateInsights (Some weekStore) 7 Week 0 10000))) \<noteq> [Some 0]"
proof -
  have ne: "getMoodHistoryByDateRange (Some weekStore) 7 0 10000 \<noteq> []"
    using weekStore_range by simp
  show ?thesis
    unfolding generateInsights_stores [OF ne] weekStore_range
    by (simp add: insightsOf_def buildInsight_def week_counts weekStore_def emptyStore_def)
qed

lemma generateInsights_dominant:
  assumes "getMoodHistoryByDateRange (Some s) u ps pe = moods" "moods \<noteq> []"
  shows "\<exists>row. snd (generateInsights (Some s) u p ps pe) = Some (s\<lparr>moodInsights := moodInsights s @ [row]\<rparr>)
           \<and> mi_dominantMood row = dominantOf (moodCounts moods)
           \<and> mi_moodDistribution row = moodCounts moods"
proof -
  have ne: "getMoodHistoryByDateRange (Some s) u ps pe \<noteq> []" using assms by simp
  show ?thesis
    unfolding generateInsights_stores [OF ne] assms(1)
    by (rule exI [of _ "(buildInsight u p ps pe moods (getHabitsByUser (Some s) u))
          \<lparr>mi_id := autoId (map mi_id (moodInsights s))\<rparr>"])
      (simp add: buildInsight_def)
qed

text \<open>
  Claim C2, as the code has it. The dominant mood that \<open>generateInsights\<close> stores is the
  category that reaches the highest count and, among those tied for it, the one whose
  first record comes first in the fetched list: every category met before it has a
  strictly smaller count, every category met after it has at most its count. For two
  records of different categories the category of the first record of the list wins.
\<close>

theorem dominant_mood_first_encountered:
  assumes "getMoodHistoryByDateRange (Some s) u ps pe = moods" and "moods \<noteq> []"
  shows "(\<exists>row pre post.
            snd (generateInsights (Some s) u p ps pe) = Some (s\<lparr>moodInsights := moodInsights s @ [row]\<rparr>)
          \<and> map moodKey moods = pre @ mi_dominantMood row # post
          \<and> mi_dominantMood row \<notin> set pre
          \<and> (\<forall>k\<in>set pre. count_list (map moodKey moods) k
                               < count_list (map moodKey moods) (mi_dominantMood row))
          \<and> (\<forall>k\<in>set post. count_list (map moodKey moods) k
                               \<le> count_list (map moodKey moods) (mi_dominantMood row)))
       \<and> (moodKey a \<noteq> moodKey b \<longrightarrow> dominantOf (moodCounts [a, b]) = moodKey a)"
proof -
  from generateInsights_dominant [OF assms, of p] obtain row where
    r: "snd (generateInsights (Some s) u p ps pe) = Some (s\<lparr>moodInsights := moodInsights s @ [row]\<rparr>)"
    "mi_dominantMood row = dominantOf (moodCounts moods)" by blast
  from dominant_first_max [OF assms(2)] obtain pre post where
    "map moodKey moods = pre @ dominantOf (moodCounts moods) # post"
    "dominantOf (moodCounts moods) \<notin> set pre"
    "\<forall>k\<in>set pre. count_list (map moodKey moods) k
         < count_list (map moodKey moods) (dominantOf (moodCounts moods))"
    "\<forall>k\<in>set post. count_list (map moodKey moods) k
         \<le> count_list (map moodKey moods) (dominantOf (moodCounts moods))" by blast
  then have 1: "\<exists>row pre post.
            snd (generateInsights (Some s) u p ps pe) = Some (s\<lparr>moodInsights := moodInsights s @ [row]\<rparr>)
          \<and> map moodKey moods = pre @ mi_dominantMood row # post
          \<and> mi_dominantMood row \<notin> set pre
          \<and> (\<forall>k\<in>set pre. count_list (map moodKey moods) k
                               < count_list (map moodKey moods) (mi_dominantMood row))
          \<and> (\<forall>k\<in>set post. count_list (map moodKey moods) k
                               \<le> count_list (map moodKey moods) (mi_dominantMood row))"
    using r by metis
  have 2: "moodKey a \<noteq> moodKey b \<longrightarrow> dominantOf (moodCounts [a, b]) = moodKey a"
    using moodKey_nonempty [of a] by (simp add: moodCounts_def dominantOf_def)
  show ?thesis using 1 2 by blast
qed

theorem dominant_mood_first_encountered_witness:
  "(\<exists>row pre post.
      snd (generateInsights (Some tieStore) 7 Week 0 10000) = Some (tieStore\<lparr>moodInsights := moodInsights tieStore @ [row]\<rparr>)
    \<and> [''good'', ''excellent''] = pre @ mi_dominantMood row # post
    \<and> mi_dominantMood row \<notin> set pre
    \<and> (\<forall>k\<in>set pre. count_list [''good'', ''excellent''] k
                         < count_list [''good'', ''excellent''] (mi_dominantMood row))
    \<and> (\<forall>k\<in>set post. count_list [''good'', ''excellent''] k
                         \<le> count_list [''good'', ''excellent''] (mi_dominantMood row)))
   \<and> dominantOf (moodCounts [moodRow 12 7 2000 Good 5, moodRow 11 7 1000 Excellent 5]) = ''good''"
proof -
  have ne: "[moodRow 12 7 2000 Good 5, moodRow 11 7 1000 Excellent 5] \<noteq> []" by simp
  have k: "moodKey (moodRow 12 7 2000 Good 5) = ''good''"
    "moodKey (moodRow 11 7 1000 Excellent 5) = ''excellent''"
    by (simp_all add: moodKey_def moodName_def moodRow_def)
  show ?thesis
    using dominant_mood_first_encountered [OF tieStore_range ne,
        of Week "moodRow 12 7 2000 Good 5" "moodRow 11 7 1000 Excellent 5"]
    by (simp add: k)
qed

text \<open>
  Claim C2 as stated gives \<open>excellent\<close> for one excellent and one good record whatever their
  order. With the good record the newer one, the fetched list starts with it and the
  stored dominant mood is \<open>good\<close>.
\<close>

theorem tie_break_counterexample:
  "map mi_dominantMood (insightsOf (snd (generateInsights (Some tieStore) 7 Week 0 10000))) = [''good'']
   \<and> map mi_dominantMood (insightsOf (snd (generateInsights (Some tieStore) 7 Week 0 10000)))
       \<noteq> [''excellent'']"
proof -
  have ne: "getMoodHistoryByDateRange (Some tieStore) 7 0 10000 \<noteq> []"
    using tieStore_range by simp
  show ?thesis
    unfolding generateInsights_stores [OF ne] tieStore_range
    by (simp add: insightsOf_def buildInsight_def moodCounts_def moodKey_def moodName_def
        moodRow_def dominantOf_def tieStore_def emptyStore_def)
qed

text \<open>
  Claim C4. When the fetched mood list is empty, \<open>generateInsights\<close> throws the
  \<open>BAD_REQUEST\<close> error with the message \<open>No mood data available for this period\<close> and
  the database is the one it was given: no insight row is created.
\<close>

theorem no_mood_data_rejected:
  assumes "getMoodHistoryByDateRange db u ps pe = []"
  shows "generateInsights db u p ps pe =
           (Inl (TRPCError BAD_REQUEST (Some ''No mood data available for this period'')), db)"
  using assms by (simp add: generateInsights_def noMoodData_def)

theorem no_mood_data_rejected_witness:
  "generateInsights (Some emptyStore) 7 Month 0 10000 =
     (Inl (TRPCError BAD_REQUEST (Some ''No mood data available for this period'')), Some emptyStore)"
proof -
  have e: "getMoodHistoryByDateRange (Some emptyStore) 7 0 10000 = []"
    by (simp add: getMoodHistoryByDateRange_def emptyStore_def)
  show ?thesis by (rule no_mood_data_rejected [OF e])
qed




section \<open>Unavailable storage, ownership, input validation, chart statistics\<close>

text \<open>
  Claim C6, as the code has it. With the database handle missing, the upserts and the
  insight insert throw \<open>Database not available\<close> and leave the handle as it is; the
  day-bucket lookup returns nothing and the range query returns the empty list, which are
  their answers when no record matches; the insight generation then rejects with the
  no-data error of an empty period. With a database at hand an upsert never fails.
\<close>

theorem unavailable_database:
  "getMoodHistoryByDate tz None u t = None
   \<and> getMoodHistoryByDateRange None u a b = []
   \<and> generateInsights None u p a b
       = (Inl (TRPCError BAD_REQUEST (Some ''No mood data available for this period'')), None)
   \<and> upsertMoodHistory tz None u t m x n = (Inl (PlainError ''Database not available''), None)
   \<and> upsertHabitCompletion tz now None h u t c = (Inl (PlainError ''Database not available''), None)
   \<and> createMoodInsight None row = (Inl (PlainError ''Database not available''), None)
   \<and> fst (upsertMoodHistory tz (Some s) u t m x n) = Inr ()
   \<and> fst (upsertHabitCompletion tz now (Some s) h u t c) = Inr ()"
  by (simp add: getMoodHistoryByDate_def getMoodHistoryByDateRange_def generateInsights_def
      noMoodData_def upsertMoodHistory_def upsertHabitCompletion_def createMoodInsight_def
      dbNotAvailable_def split: list.split)

text \<open>
  Claim C6 as stated has every operation tell a missing database from a missing record.
  The lookup, the range query and the insight generation answer the same in both cases.
\<close>

theorem unavailable_lookup_counterexample:
  "getMoodHistoryByDate utc None 7 1000 = getMoodHistoryByDate utc (Some emptyStore) 7 1000
   \<and> getMoodHistoryByDateRange None 7 0 10000 = getMoodHistoryByDateRange (Some emptyStore) 7 0 10000
   \<and> fst (generateInsights None 7 Week 0 10000) = fst (generateInsights (Some emptyStore) 7 Week 0 10000)"
  by (simp add: getMoodHistoryByDate_def getMoodHistoryByDateRange_def generateInsights_def
      emptyStore_def)

text \<open>
  Claim C7, at a failing input. Habit 21 belongs to user 7. User 8 archives it through
  \<open>habits.archive\<close>: the call succeeds, the habit is archived and leaves the listing of
  user 7. The resolver never reads the caller.
\<close>

theorem archive_foreign_habit:
  "habits_archive_route (Some habitStore) 8 21 =
     (Inr (), Some (habitStore\<lparr>habits :=
        [\<lparr>hb_id = 21, hb_userId = 7, hb_name = ''Reading'', hb_description = None,
          hb_color = None, hb_icon = None, hb_createdAt = 1000, hb_isActive = 0\<rparr>]\<rparr>))
   \<and> getHabitsByUser (Some habitStore) 7 \<noteq> []
   \<and> getHabitsByUser (snd (habits_archive_route (Some habitStore) 8 21)) 7 = []"
  by (simp add: habits_archive_route_def updateHabit_def noHabitValues_def habitStore_def
      emptyStore_def setCol_def getHabitsByUser_def)

text \<open>
  The sibling route \<open>diary.update\<close> does guard its write: it succeeds only on an entry of
  the caller dated today.
\<close>

lemma diary_update_own_entry:
  assumes "diary_update_route tz now (Some s) u i title content = (Inr (), db')"
  shows "\<exists>e\<in>set (diaryEntries s). de_id e = i \<and> de_userId e = u \<and> inDayWindow tz now (de_date e)"
proof -
  let ?P = "\<lambda>r. de_userId r = u \<and> inDayWindow tz now (de_date r)"
  obtain e where g: "getDiaryEntryByDate tz (Some s) u now = Some e" and i: "de_id e = i"
    using assms by (auto simp: diary_update_route_def split: option.splits if_splits)
  then obtain es where "filter ?P (diaryEntries s) = e # es"
    by (cases "filter ?P (diaryEntries s)") (auto simp: getDiaryEntryByDate_def)
  then have "e \<in> set (filter ?P (diaryEntries s))" by simp
  then show ?thesis using i by auto
qed

lemma moodOfName_Some:
  "moodOfName n \<noteq> None \<longleftrightarrow> n \<in> {''excellent'', ''good'', ''neutral'', ''sad'', ''terrible''}"
  unfolding moodOfName_def by (simp del: insert_iff add: insert_iff [of n])

text \<open>
  Claim C9, as the code has it. The schema of \<open>mood.record\<close> accepts exactly the inputs
  whose category is one of the five known names and whose intensity is a number between
  1 and 10, whole or not. A refused input is answered with the input error and leaves the
  database as it is; an accepted one reaches the upsert, which succeeds on a database at
  hand.
\<close>

theorem mood_record_accepts:
  "(moodRecordSchema inp \<noteq> None \<longleftrightarrow>
      in_mood inp \<in> {''excellent'', ''good'', ''neutral'', ''sad'', ''terrible''}
      \<and> 1 \<le> in_moodIntensity inp \<and> in_moodIntensity inp \<le> 10)
   \<and> (moodRecordSchema inp = None \<longrightarrow> mood_record_route tz db u inp = (Inl InvalidInput, db))
   \<and> (moodRecordSchema inp \<noteq> None \<longrightarrow> fst (mood_record_route tz (Some s) u inp) = Inr ())"
proof -
  have 1: "moodRecordSchema inp \<noteq> None \<longleftrightarrow>
      in_mood inp \<in> {''excellent'', ''good'', ''neutral'', ''sad'', ''terrible''}
      \<and> 1 \<le> in_moodIntensity inp \<and> in_moodIntensity inp \<le> 10"
    using moodOfName_Some [of "in_mood inp"]
    by (auto simp: moodRecordSchema_def split: option.splits)
  have 2: "moodRecordSchema inp = None \<longrightarrow> mood_record_route tz db u inp = (Inl InvalidInput, db)"
    by (simp add: mood_record_route_def)
  have 3: "moodRecordSchema inp \<noteq> None \<longrightarrow> fst (mood_record_route tz (Some s) u inp) = Inr ()"
    by (auto simp: mood_record_route_def upsertMoodHistory_def split: list.split)
  show ?thesis using 1 2 3 by blast
qed

theorem mood_record_accepts_witness:
  "mood_record_route utc (Some emptyStore) 7 angryInput = (Inl InvalidInput, Some emptyStore)
   \<and> fst (mood_record_route utc (Some emptyStore) 7 halfInput) = Inr ()"
proof -
  have a: "moodRecordSchema angryInput = None"
    by (simp add: moodRecordSchema_def moodOfName_def angryInput_def)
  have h: "moodRecordSchema halfInput \<noteq> None"
    by (simp add: moodRecordSchema_def moodOfName_def halfInput_def)
  show ?thesis
    using mood_record_accepts [of angryInput utc "Some emptyStore" 7 emptyStore]
      mood_record_accepts [of halfInput utc "Some emptyStore" 7 emptyStore] a h
    by blast
qed

text \<open>
  Claim C9 as stated refuses an intensity that is not a whole number: 5.5 is accepted and
  a record is stored.
\<close>

theorem fractional_intensity_counterexample:
  "of_int \<lfloor>in_moodIntensity halfInput\<rfloor> \<noteq> in_moodIntensity halfInput
   \<and> fst (mood_record_route utc (Some emptyStore) 7 halfInput) = Inr ()
   \<and> moodRecordsOn utc (snd (mood_record_route utc (Some emptyStore) 7 halfInput)) 7 1000 \<noteq> []"
proof -
  have 1: "of_int \<lfloor>in_moodIntensity halfInput\<rfloor> \<noteq> in_moodIntensity halfInput"
    by (simp add: halfInput_def floor_rat_numeral)
  have 2: "fst (mood_record_route utc (Some emptyStore) 7 halfInput) = Inr ()"
    by code_simp
  have 3: "moodRecordsOn utc (snd (mood_record_route utc (Some emptyStore) 7 halfInput)) 7 1000 \<noteq> []"
    by code_simp
  show ?thesis using 1 2 3 by simp
qed

text \<open>
  Claim C5, at a failing input. Two records one year apart lie on different local days,
  yet the trend has a single group for them, labelled \<open>Jan 1\<close>, holding the average of
  both intensities: the grouping key is the month-and-day label, which has no year.
\<close>

theorem trend_merges_years:
  "localDay utc 0 \<noteq> localDay utc 31536000000
   \<and> trendData utc [moodRow 12 7 31536000000 Good 2, moodRow 11 7 0 Sad 8] = [(''Jan 1'', 5)]"
proof -
  have d: "localDay utc 0 \<noteq> localDay utc 31536000000"
    by (simp add: utc_def localDay_fixed)
  have l: "dayLabel utc 31536000000 = ''Jan 1''" "dayLabel utc 0 = ''Jan 1''"
    by code_simp+
  have s: "dailyData utc [moodRow 12 7 31536000000 Good 2, moodRow 11 7 0 Sad 8] = [(''Jan 1'', 10)]"
    by code_simp
  have p: "parseFloat (toFixed (Suc 0) (toDouble 5)) = 5"
    by code_simp
  have t: "trendData utc [moodRow 12 7 31536000000 Good 2, moodRow 11 7 0 Sad 8] = [(''Jan 1'', 5)]"
    unfolding trendData_def s by (simp add: moodRow_def l p)
  show ?thesis using d t by blast
qed

text \<open>
  The other half of the chart statistics holds: the page's counts always list the five
  known categories, in declaration order.
\<close>

lemma bump_known_keys: "k \<in> set (map fst cs) \<Longrightarrow> map fst (bump cs k) = map fst cs"
  by (simp add: keys_bump)

lemma pageMoodCounts_keys:
  "map fst (pageMoodCounts moods) = [''excellent'', ''good'', ''neutral'', ''sad'', ''terrible'']"
proof -
  have "map fst (foldl (\<lambda>acc m. case mh_mood m of None \<Rightarrow> acc | Some c \<Rightarrow> bump acc (moodName c)) cs moods)
          = [''excellent'', ''good'', ''neutral'', ''sad'', ''terrible'']"
    if "map fst cs = [''excellent'', ''good'', ''neutral'', ''sad'', ''terrible'']" for cs
    using that
  proof (induction moods arbitrary: cs)
    case Nil
    then show ?case by simp
  next
    case (Cons m ms)
    show ?case
    proof (cases "mh_mood m")
      case None
      then show ?thesis using Cons by simp
    next
      case (Some c)
      have "moodName c \<in> set (map fst cs)"
        unfolding Cons.prems by (cases c) (simp_all add: moodName_def)
      then have "map fst (bump cs (moodName c)) = map fst cs" by (rule bump_known_keys)
      then show ?thesis using Some Cons by simp
    qed
  qed
  then show ?thesis by (simp add: pageMoodCounts_def initialCounts_def)
qed

end
